theory Spec2Isabelle
  imports Complex_Main "HOL-Library.Sublist"
begin

section \<open>Values and strings of the runtime\<close>

text \<open>
  A field of a provider record is absent (\<open>undefined\<close>), \<open>null\<close> or a string.
  Strings are byte lists; the patterns and section names the code tests are ASCII, apart
  from one dash that is written as its three UTF-8 bytes.
\<close>

datatype jsval = JUndefined | JNull | JStr string

text \<open>Truthiness of a value, as \<open>||\<close> and \<open>!\<close> read it: only a non-empty string is truthy.\<close>

fun truthy :: "jsval \<Rightarrow> bool" where
  "truthy (JStr s) = (s \<noteq> [])"
| "truthy _ = False"

text \<open>\<open>v || d\<close> for a string default \<open>d\<close>.\<close>

fun or_default :: "jsval \<Rightarrow> string \<Rightarrow> string" where
  "or_default (JStr s) d = (if s = [] then d else s)"
| "or_default _ d = d"

text \<open>A value inside a template literal.\<close>

fun template :: "jsval \<Rightarrow> string" where
  "template JUndefined = ''undefined''"
| "template JNull = ''null''"
| "template (JStr s) = s"

text \<open>
  \<open>toLowerCase\<close>. On ASCII text it maps the letters \<open>A\<close> to \<open>Z\<close> to \<open>a\<close> to
  \<open>z\<close> and keeps every other character. Outside ASCII it follows the case tables of
  the runtime. One character outside ASCII has an ASCII lowercase letter of its own: the
  Kelvin sign U+212A, bytes \<open>E2 84 AA\<close>, becomes \<open>k\<close> as the letter \<open>K\<close> does. So a text
  that is ASCII apart from Kelvin signs is lowercased here character by character; for
  every other text the result is what the runtime gives, taken as the parameter
  \<open>unicode\<close>.
\<close>

definition lower_char :: "char \<Rightarrow> char" where
  "lower_char c =
     (case map_of (zip ''ABCDEFGHIJKLMNOPQRSTUVWXYZ'' ''abcdefghijklmnopqrstuvwxyz'') c of
        Some d \<Rightarrow> d
      | None \<Rightarrow> c)"

definition is_ascii :: "string \<Rightarrow> bool" where
  "is_ascii s = list_all (\<lambda>c. \<not> digit7 c) s"

fun kelvin_to_K :: "string \<Rightarrow> string" where
  "kelvin_to_K (a # b # c # s) =
     (if a = CHR 0xE2 \<and> b = CHR 0x84 \<and> c = CHR 0xAA then CHR ''K'' # kelvin_to_K s
      else a # kelvin_to_K (b # c # s))"
| "kelvin_to_K s = s"

definition toLowerCase :: "(string \<Rightarrow> string) \<Rightarrow> string \<Rightarrow> string" where
  "toLowerCase unicode s =
     (if is_ascii (kelvin_to_K s) then map lower_char (kelvin_to_K s) else unicode s)"

text \<open>\<open>text.includes(p)\<close> on strings: \<open>p\<close> occurs in \<open>text\<close> as a contiguous run.\<close>

fun includes_str :: "string \<Rightarrow> string \<Rightarrow> bool" where
  "includes_str [] p = (p = [])"
| "includes_str (c # cs) p = (prefix p (c # cs) \<or> includes_str cs p)"

text \<open>
  \<open>/(a|b|c)/.test(text)\<close> for literal alternatives: one of them occurs in the text.
  Every pattern of the code has this shape.
\<close>

definition regex_test :: "string list \<Rightarrow> string \<Rightarrow> bool" where
  "regex_test alts text = list_ex (includes_str text) alts"

text \<open>\<open>xs.includes(x)\<close> on an array.\<close>

definition includes_arr :: "'a list \<Rightarrow> 'a \<Rightarrow> bool" where
  "includes_arr xs x = (x \<in> set xs)"

text \<open>\<open>xs.join(sep)\<close>.\<close>

fun join :: "string \<Rightarrow> string list \<Rightarrow> string" where
  "join sep [] = []"
| "join sep [x] = x"
| "join sep (x # y # ys) = x @ sep @ join sep (y # ys)"

text \<open>\<open>String(n)\<close> for a natural number.\<close>

fun String_nat :: "nat \<Rightarrow> string" where
  "String_nat n =
     (if n < 10 then [''0123456789'' ! n]
      else String_nat (n div 10) @ [''0123456789'' ! (n mod 10)])"

declare String_nat.simps [simp del]

text \<open>
  \<open>xs.slice(0, e)\<close> for an integer \<open>e\<close>: a negative end counts from the end of the
  array.
\<close>

definition slice0 :: "'a list \<Rightarrow> int \<Rightarrow> 'a list" where
  "slice0 xs e =
     (let len = int (length xs);
          final = (if e < 0 then max (len + e) 0 else min e len)
      in take (nat final) xs)"

text \<open>
  A number of the runtime: a finite value (every finite double is a rational), \<open>NaN\<close>
  or an infinity. \<open>Number(v)\<close> of a value of a request body is such a number; for a
  value that is not numeric it is \<open>NaN\<close>.
\<close>

datatype js_number = Finite rat | NaN | PosInfinity | NegInfinity

text \<open>
  \<open>xs.slice(0, n)\<close> for a number \<open>n\<close>: the end is first made an integer
  (\<open>NaN\<close> becomes 0, a fraction is cut towards 0, the infinities stay).
\<close>

fun slice0_number :: "'a list \<Rightarrow> js_number \<Rightarrow> 'a list" where
  "slice0_number xs (Finite r) = slice0 xs (if 0 \<le> r then \<lfloor>r\<rfloor> else \<lceil>r\<rceil>)"
| "slice0_number xs NaN = slice0 xs 0"
| "slice0_number xs PosInfinity = xs"
| "slice0_number xs NegInfinity = []"

section \<open>The classifier\<close>

record classification =
  digital_first :: bool
  excluded_reasons :: "string list"

record text_fields =
  tf_title :: string
  tf_description :: string
  tf_url :: jsval

definition linear_pattern :: "string list" where
  "linear_pattern = [''broadcast'', ''linear tv'', ''cable'', ''syndication'']"

definition streaming_pattern :: "string list" where
  "streaming_pattern =
     [''netflix'', ''prime video'', ''disney+'', ''hulu'', ''paramount+'', ''apple tv'',
      ''streaming'']"

definition digitalHints :: "string list" where
  "digitalHints =
     [''youtube'', ''tiktok'', ''instagram'', ''shorts'', ''reels'', ''creator'',
      ''web series'', ''newsletter'', ''substack'', ''patreon'', ''discord'']"

text \<open>
  The text the classifier reads: title, description and url on three lines, lowercased.
  An absent url takes the parameter's default, the empty string. Here and below \<open>U\<close>
  is the runtime's lowercasing of text outside ASCII.
\<close>

definition classify_text :: "(string \<Rightarrow> string) \<Rightarrow> text_fields \<Rightarrow> string" where
  "classify_text U f =
     toLowerCase U
       (tf_title f @ [CHR 0x0A] @ tf_description f @ [CHR 0x0A]
          @ (case tf_url f of JUndefined \<Rightarrow> [] | v \<Rightarrow> template v))"

definition classifyDigitalFirst ::
  "(string \<Rightarrow> string) \<Rightarrow> text_fields \<Rightarrow> string list \<Rightarrow> classification" where
  "classifyDigitalFirst U f exclude =
     (let text = classify_text U f;
          r1 = (if includes_arr exclude ''linear'' \<and> regex_test linear_pattern text
                then [''linear''] else []);
          r2 = (if includes_arr exclude ''streaming'' \<and> regex_test streaming_pattern text
                then r1 @ [''streaming''] else r1)
      in \<lparr> digital_first = (length r2 = 0 \<and> regex_test digitalHints text),
           excluded_reasons = r2 \<rparr>)"

section \<open>Feeds, provider and environment\<close>

record feed =
  feed_id :: string
  name :: string
  homepage :: string
  content_type :: string
  domains :: "string list"
  q :: string

text \<open>The feed table of the full service. The dash of two display names is U+2014.\<close>

definition FEEDS :: "feed list" where
  \<open>FEEDS =
    [\<lparr> feed_id = ''ppc_land'', name = ''PPC Land'', homepage = ''https://ppc.land/'',
       content_type = ''advertising'', domains = [''ppc.land''],
       q = join '' AND ''
         [''(TikTok OR YouTube OR Instagram OR "Meta" OR creator OR "short form" OR Shorts OR Reels)'',
          ''(ads OR advertising OR monetization OR measurement OR attribution OR "brand safety" OR targeting OR privacy OR "ad product")''] \<rparr>,
     \<lparr> feed_id = ''tubefilter'', name = ''Tubefilter'',
       homepage = ''https://www.tubefilter.com/'', content_type = ''creator_economy'',
       domains = [''tubefilter.com''],
       q = join '' AND ''
         [''(YouTube OR TikTok OR Instagram OR creator OR "creator economy" OR Shorts OR Reels)'',
          ''(launch OR series OR format OR monetization OR partnership OR slate OR funding OR "creator fund" OR studio)''] \<rparr>,
     \<lparr> feed_id = ''publishpress'', name = ''PublishPress'',
       homepage = ''https://publishpress.com/'', content_type = ''industry_news'',
       domains = [''publishpress.com''],
       q = join '' AND ''
         [''(creator OR newsletter OR "web-first" OR "digital-first" OR Shorts OR Reels OR YouTube OR TikTok)'',
          ''(publishing OR distribution OR WordPress OR workflow OR editorial OR CMS)''] \<rparr>,
     \<lparr> feed_id = ''hollywood_reporter'', name = ''The Hollywood Reporter'',
       homepage = ''https://www.hollywoodreporter.com/'',
       content_type = ''entertainment_trade'', domains = [''hollywoodreporter.com''],
       q = join '' AND ''
         [''(YouTube OR TikTok OR creator OR "digital-first" OR "web series" OR Shorts OR Reels)'',
          ''(series OR slate OR launch OR partnership OR studio OR format OR deal)''] \<rparr>,
     \<lparr> feed_id = ''google_news_youtube_series_us_en'',
       name = ''YouTube Series (US/EN) '' @ [CHR 0xE2, CHR 0x80, CHR 0x94] @ '' proxy bundle'',
       homepage = ''https://news.google.com/'', content_type = ''industry_news'',
       domains =
         [''tubefilter.com'', ''hollywoodreporter.com'', ''deadline.com'', ''variety.com'',
          ''digiday.com'', ''adweek.com'', ''theverge.com'', ''techcrunch.com'',
          ''venturebeat.com'', ''fastcompany.com''],
       q = join '' AND ''
         [''(YouTube OR "YouTube Shorts" OR creator OR "digital studio" OR "web series")'',
          ''(series OR episodic OR slate OR pilot OR trailer OR "new show" OR "original series" OR format)'',
          ''(launch OR debut OR announcement OR deal OR partnership OR greenlit)''] \<rparr>,
     \<lparr> feed_id = ''tiktok_creativecenter_trends'',
       name = ''TikTok Trends '' @ [CHR 0xE2, CHR 0x80, CHR 0x94] @ '' proxy bundle'',
       homepage = ''https://ads.tiktok.com/business/creativecenter/inspiration/trends'',
       content_type = ''trends'',
       domains =
         [''socialmediatoday.com'', ''later.com'', ''sproutsocial.com'', ''hootsuite.com'',
          ''buffer.com'', ''searchenginejournal.com'', ''adweek.com'', ''digiday.com'',
          ''theverge.com'', ''techcrunch.com''],
       q = join '' AND ''
         [''(TikTok)'',
          ''("Creative Center" OR trends OR trending OR "trend report" OR "top trends" OR hashtags OR sounds OR viral)'',
          ''(creator OR brands OR ads OR campaign OR "creative strategy" OR UGC)''] \<rparr>]\<close>

record raw_article =
  a_title :: jsval
  a_description :: jsval
  a_url :: jsval
  a_publishedAt :: jsval

text \<open>
  An outbound call to the search provider: the query parameters in the order they were
  set, and the value given for the \<open>X-Api-Key\<close> header (\<open>None\<close> when the code passes
  \<open>undefined\<close>).
\<close>

record request =
  params :: "(string \<times> string) list"
  api_key :: "string option"

text \<open>
  Errors that are thrown: an \<open>Error\<close> the code builds itself, the \<open>RangeError\<close> of
  \<open>toISOString\<close> on an invalid date, the \<open>TypeError\<close> of \<open>hash.update\<close> on a value
  that is not a string, the \<open>TypeError\<close> of reading the named property of \<open>null\<close>,
  the \<open>TypeError\<close> of calling \<open>map\<close> on a value that has none, and whatever
  \<open>fetch\<close> or \<open>resp.json()\<close> rejects with (a body that is not JSON among them).
\<close>

datatype js_error =
    Error string
  | Invalid_time_value
  | Invalid_hash_data jsval
  | Cannot_read_null string
  | Map_not_a_function
  | Fetch_failure string

text \<open>
  The JSON body of a success answer, as far as the code reads it. The body is \<open>null\<close>,
  or it is a value whose \<open>articles\<close> is falsy (absent, \<open>null\<close>, \<open>0\<close>, the empty
  string, \<open>false\<close>), is truthy and not an array, or is an array. An element of the
  array is \<open>null\<close> or a value whose four fields are read; a field that the element
  does not have is \<open>undefined\<close>.
\<close>

datatype article_entry = Null_entry | Entry raw_article

datatype articles_value = No_articles | Not_an_array | Articles "article_entry list"

datatype search_body = Null_body | Body articles_value

text \<open>
  What the provider does with a request: a success status with a JSON body, another
  status with a body text, or a failure of the call or of parsing the body.
\<close>

datatype reply =
    Reply_ok search_body
  | Reply_not_ok nat string
  | Reply_throws js_error

text \<open>\<open>data.articles || []\<close>, ready for \<open>map\<close>.\<close>

fun articles_or_empty :: "search_body \<Rightarrow> js_error + article_entry list" where
  "articles_or_empty Null_body = Inl (Cannot_read_null ''articles'')"
| "articles_or_empty (Body No_articles) = Inr []"
| "articles_or_empty (Body Not_an_array) = Inl Map_not_a_function"
| "articles_or_empty (Body (Articles es)) = Inr es"

text \<open>\<open>xs.map(f)\<close> with a function that may throw: the first error ends the map.\<close>

fun map_throwing :: "('a \<Rightarrow> js_error + 'b) \<Rightarrow> 'a list \<Rightarrow> js_error + 'b list" where
  "map_throwing f [] = Inr []"
| "map_throwing f (x # xs) =
     (case f x of
        Inl err \<Rightarrow> Inl err
      | Inr y \<Rightarrow> (case map_throwing f xs of Inl err \<Rightarrow> Inl err | Inr ys \<Rightarrow> Inr (y # ys)))"

text \<open>
  The world around a request. \<open>isoNow\<close> is the clock reading, one per request.
  \<open>isoSince h\<close> is \<open>new Date(Date.now() - h * 3600 * 1000).toISOString()\<close> for a
  finite \<open>h\<close>, \<open>None\<close> when the date is out of range and \<open>toISOString\<close> throws.
  The provider's answer may depend on how many calls were made before.
  \<open>lowerUnicode\<close> is the runtime's \<open>toLowerCase\<close> on text outside ASCII.
\<close>

record env =
  NEWSAPI_KEY :: "string option"
  BROKER_KEY :: "string option"
  isoNow :: string
  isoSince :: "rat \<Rightarrow> string option"
  provider :: "nat \<Rightarrow> request \<Rightarrow> reply"
  lowerUnicode :: "string \<Rightarrow> string"

text \<open>
  The cutoff of a window of \<open>h\<close> hours. For \<open>NaN\<close> and the infinities the date is
  invalid and \<open>toISOString\<close> throws.
\<close>

fun since_iso :: "env \<Rightarrow> js_number \<Rightarrow> string option" where
  "since_iso e (Finite h) = isoSince e h"
| "since_iso e _ = None"

text \<open>\<open>!v\<close> for an environment variable or a header: unset or empty.\<close>

fun falsy :: "string option \<Rightarrow> bool" where
  "falsy None = True"
| "falsy (Some s) = (s = [])"

section \<open>The full service\<close>

text \<open>
  The source has two variants of the service. The full one has the classifier, the
  search call with its credential check, and the digest route.
\<close>

subsection \<open>Authentication\<close>

datatype auth_result = Unauthorized nat string | Next

definition auth :: "env \<Rightarrow> string option \<Rightarrow> auth_result" where
  "auth e key =
     (if falsy (BROKER_KEY e) \<or> falsy key \<or> key \<noteq> BROKER_KEY e
      then Unauthorized 401 ''Missing/invalid API key''
      else Next)"

subsection \<open>Items\<close>

text \<open>
  The hash functions belong to the runtime's crypto module. A digest is written as the
  algorithm applied to the hashed text.
\<close>

datatype digest_hex = SHA256_hex string | SHA1_hex string

record item =
  item_id :: digest_hex
  title :: string
  url :: jsval
  source :: string
  published_at :: string
  snippet :: string
  labels :: "string list"
  classification :: classification

definition stableId :: "jsval \<Rightarrow> jsval \<Rightarrow> digest_hex" where
  "stableId u publishedAt = SHA256_hex (template u @ ''|'' @ or_default publishedAt [])"

text \<open>
  The function both routes map over the provider's articles, for the feed \<open>fid\<close> and
  the clock reading \<open>now\<close>. The classifier is given the article's title and
  description, each replaced by the empty string when it is absent or empty, and its url.
\<close>

definition classifier_input :: "raw_article \<Rightarrow> text_fields" where
  "classifier_input a =
     \<lparr> tf_title = or_default (a_title a) [],
       tf_description = or_default (a_description a) [],
       tf_url = a_url a \<rparr>"

definition normalize_article ::
  "(string \<Rightarrow> string) \<Rightarrow> string \<Rightarrow> string list \<Rightarrow> string \<Rightarrow> raw_article \<Rightarrow> item" where
  "normalize_article U now exclude fid a =
     (let pub = or_default (a_publishedAt a) now;
          u = a_url a;
          c = classifyDigitalFirst U (classifier_input a) exclude
      in \<lparr> item_id = stableId u (JStr pub),
           title = or_default (a_title a) ''(untitled)'',
           url = u,
           source = fid,
           published_at = pub,
           snippet = or_default (a_description a) [],
           labels = [],
           classification = c \<rparr>)"

text \<open>
  The same function on an element of the \<open>articles\<close> array: on \<open>null\<close> its first
  step, reading \<open>publishedAt\<close>, throws.
\<close>

fun normalize_entry ::
  "(string \<Rightarrow> string) \<Rightarrow> string \<Rightarrow> string list \<Rightarrow> string \<Rightarrow> article_entry
     \<Rightarrow> js_error + item" where
  "normalize_entry U now exclude fid Null_entry = Inl (Cannot_read_null ''publishedAt'')"
| "normalize_entry U now exclude fid (Entry a) = Inr (normalize_article U now exclude fid a)"

subsection \<open>The search call\<close>

text \<open>
  The call takes the list of requests sent so far and returns it with its own request
  added, when it sends one.
\<close>

definition newsapiEverything ::
  "env \<Rightarrow> string \<Rightarrow> string list \<Rightarrow> string option \<Rightarrow> nat \<Rightarrow> request list
     \<Rightarrow> (js_error + search_body) \<times> request list" where
  "newsapiEverything e qq doms fromISO pageSize net =
     (if falsy (NEWSAPI_KEY e)
      then (Inl (Error ''Server misconfigured: NEWSAPI_KEY missing''), net)
      else
        let ps = [(''q'', qq), (''sortBy'', ''publishedAt''), (''pageSize'', String_nat pageSize)]
                 @ (if doms \<noteq> [] then [(''domains'', join '','' doms)] else [])
                 @ (case fromISO of
                      None \<Rightarrow> []
                    | Some f \<Rightarrow> if f = [] then [] else [(''from'', f)]);
            req = \<lparr> params = ps, api_key = NEWSAPI_KEY e \<rparr>
        in (case provider e (length net) req of
              Reply_throws err \<Rightarrow> (Inl err, net @ [req])
            | Reply_not_ok st body \<Rightarrow>
                (Inl (Error (''NewsAPI error '' @ String_nat st @ '': '' @ body)), net @ [req])
            | Reply_ok data \<Rightarrow> (Inr data, net @ [req])))"

subsection \<open>Deduplication\<close>

text \<open>
  \<open>byUrl.set(k, v)\<close> on a \<open>Map\<close>, which keeps its keys in insertion order: a key that
  is present keeps its place and takes the new value, a new key goes to the end.
\<close>

fun map_set :: "'k \<Rightarrow> 'v \<Rightarrow> ('k \<times> 'v) list \<Rightarrow> ('k \<times> 'v) list" where
  "map_set k v [] = [(k, v)]"
| "map_set k v ((k', v') # m) =
     (if k' = k then (k, v) # m else (k', v') # map_set k v m)"

definition dedupe :: "item list \<Rightarrow> item list" where
  "dedupe all = map snd (fold (\<lambda>it byUrl. map_set (url it) it byUrl) all [])"

text \<open>
  For the statement of the merge policy: the keys of a list in the order of their first
  occurrence.
\<close>

fun first_seen :: "'a list \<Rightarrow> 'a list" where
  "first_seen [] = []"
| "first_seen (x # xs) = x # filter (\<lambda>y. y \<noteq> x) (first_seen xs)"

definition candidates :: "bool \<Rightarrow> item list \<Rightarrow> item list" where
  "candidates digital_first_only all =
     (let items = dedupe all
      in if digital_first_only then filter (\<lambda>i. digital_first (classification i)) items
         else items)"

subsection \<open>Sections and citations\<close>

record entry =
  headline :: string
  blurb :: string
  urls :: "jsval list"

record digest_section =
  sec_name :: string
  sec_items :: "entry list"

record citation =
  cite_url :: jsval
  cite_title :: string
  cite_source :: string

record digest =
  d_title :: string
  generated_at :: string
  sections :: "digest_section list"
  citations :: "citation list"

text \<open>The names of the four sections; the dash in the last one is U+2014.\<close>

definition launches_name :: string where
  "launches_name = ''New digital-first launches''"

definition formats_name :: string where
  "formats_name = ''Formats & creator series to watch''"

definition platform_name :: string where
  "platform_name = ''Platform moves & monetization''"

definition examples_name :: string where
  "examples_name =
     ''Examples (what to steal'' @ [CHR 0xE2, CHR 0x80, CHR 0x94] @ ''in a legal way)''"

definition section_names :: "string list" where
  "section_names = [launches_name, formats_name, platform_name, examples_name]"

definition launch_pattern :: "string list" where
  "launch_pattern = [''launch'', ''announce'', ''debut'', ''unveil'', ''introduc'']"

definition formats_pattern :: "string list" where
  "formats_pattern = [''series'', ''format'', ''episod'', ''season'', ''shorts'', ''reels'']"

definition platform_pattern :: "string list" where
  "platform_pattern =
     [''monetiz'', ''ads'', ''revenue'', ''policy'', ''algorithm'', ''update'', ''creator fund'']"

definition examples_pattern :: "string list" where
  "examples_pattern =
     [''case study'', ''example'', ''breakdown'', ''how to'', ''strategy'', ''playbook'']"

definition score_text :: "(string \<Rightarrow> string) \<Rightarrow> item \<Rightarrow> string" where
  "score_text U it = toLowerCase U (title it @ '' '' @ snippet it)"

definition score :: "(string \<Rightarrow> string) \<Rightarrow> item \<Rightarrow> string \<Rightarrow> int" where
  "score U it sec =
     (let t = score_text U it
      in if includes_str sec ''launch'' \<and> regex_test launch_pattern t then 4
         else if includes_str sec ''Formats'' \<and> regex_test formats_pattern t then 4
         else if includes_str sec ''Platform'' \<and> regex_test platform_pattern t then 4
         else if includes_str sec ''Examples'' \<and> regex_test examples_pattern t then 4
         else 1)"

text \<open>
  \<open>xs.sort(cmp)\<close> is a stable sort: an element goes in front of the first one it does
  not have to follow.
\<close>

fun insert_by :: "('a \<Rightarrow> 'a \<Rightarrow> int) \<Rightarrow> 'a \<Rightarrow> 'a list \<Rightarrow> 'a list" where
  "insert_by cmp x [] = [x]"
| "insert_by cmp x (y # ys) =
     (if cmp x y \<le> 0 then x # y # ys else y # insert_by cmp x ys)"

definition sort_by :: "('a \<Rightarrow> 'a \<Rightarrow> int) \<Rightarrow> 'a list \<Rightarrow> 'a list" where
  "sort_by cmp xs = foldr (insert_by cmp) xs []"

definition ranked :: "(string \<Rightarrow> string) \<Rightarrow> item list \<Rightarrow> string \<Rightarrow> item list" where
  "ranked U items sec = sort_by (\<lambda>a b. score U b sec - score U a sec) items"

definition render :: "item \<Rightarrow> entry" where
  "render it =
     \<lparr> headline = title it,
       blurb = (if snippet it = [] then ''Summary unavailable.'' else snippet it),
       urls = [url it] \<rparr>"

definition cite :: "item \<Rightarrow> citation" where
  "cite it = \<lparr> cite_url = url it, cite_title = title it, cite_source = source it \<rparr>"

definition compose ::
  "(string \<Rightarrow> string) \<Rightarrow> string \<Rightarrow> item list \<Rightarrow> js_number \<Rightarrow> digest" where
  "compose U now items max_items_per_section =
     \<lparr> d_title = ''Digital-First Content Brief'',
       generated_at = now,
       sections =
         map (\<lambda>s. \<lparr> sec_name = s,
                    sec_items =
                      map render (slice0_number (ranked U items s) max_items_per_section) \<rparr>)
             section_names,
       citations = map cite (slice0 items 200) \<rparr>"

subsection \<open>The digest route\<close>

text \<open>
  The request body, each key as the handler reads it.
  \<^item> \<open>b_sources\<close>, \<open>b_exclude\<close>: \<open>Some xs\<close> when the value is an array, \<open>None\<close> when
    it is anything else or absent. An element that is not a string equals no feed id and
    no tag, as a string does that names none.
  \<^item> \<open>b_window_hours\<close>, \<open>b_max_items_per_section\<close>: \<open>None\<close> when the key is absent
    or \<open>null\<close>, where \<open>??\<close> puts the default; \<open>Some n\<close> when it has a value \<open>v\<close> and
    \<open>Number(v)\<close> is \<open>n\<close>: a non-numeric value is \<open>Some NaN\<close>, a fraction keeps its
    value.
  \<^item> \<open>b_digital_first_only\<close>: \<open>Some False\<close> when the value is \<open>false\<close>; every other
    value and an absent key count as \<open>true\<close>.
\<close>

record digest_body =
  b_sources :: "string list option"
  b_window_hours :: "js_number option"
  b_max_items_per_section :: "js_number option"
  b_digital_first_only :: "bool option"
  b_exclude :: "string list option"

datatype response =
    Json_message nat string
  | Json_caught nat js_error
  | Json_digest digest

text \<open>
  The loop over the selected feeds. The first error thrown ends it: by the search call,
  by \<open>map\<close> on an \<open>articles\<close> that is not an array, or by the mapped function on an
  element that is \<open>null\<close>.
\<close>

fun fetch_all ::
  "env \<Rightarrow> string \<Rightarrow> string list \<Rightarrow> feed list \<Rightarrow> item list \<Rightarrow> request list
     \<Rightarrow> (js_error + item list) \<times> request list" where
  "fetch_all e fromISO exclude [] all net = (Inr all, net)"
| "fetch_all e fromISO exclude (f # fs) all net =
     (case newsapiEverything e (q f) (domains f) (Some fromISO) 50 net of
        (Inl err, net') \<Rightarrow> (Inl err, net')
      | (Inr data, net') \<Rightarrow>
          (case articles_or_empty data of
             Inl err \<Rightarrow> (Inl err, net')
           | Inr entries \<Rightarrow>
               (case map_throwing
                       (normalize_entry (lowerUnicode e) (isoNow e) exclude (feed_id f))
                       entries of
                  Inl err \<Rightarrow> (Inl err, net')
                | Inr mapped \<Rightarrow> fetch_all e fromISO exclude fs (all @ mapped) net')))"

definition digest_handler :: "env \<Rightarrow> digest_body \<Rightarrow> request list \<Rightarrow> response \<times> request list" where
  "digest_handler e body net =
     (let srcs = (case b_sources body of None \<Rightarrow> [] | Some s \<Rightarrow> s)
      in if srcs = [] then (Json_message 422 ''Invalid inputs (empty sources)'', net)
         else
           let window_hours =
                 (case b_window_hours body of None \<Rightarrow> Finite 168 | Some h \<Rightarrow> h);
               max_items_per_section =
                 (case b_max_items_per_section body of None \<Rightarrow> Finite 6 | Some m \<Rightarrow> m);
               digital_first_only = (b_digital_first_only body \<noteq> Some False);
               exclude =
                 (case b_exclude body of None \<Rightarrow> [''linear'', ''streaming''] | Some x \<Rightarrow> x)
           in case since_iso e window_hours of
                None \<Rightarrow> (Json_caught 500 Invalid_time_value, net)
              | Some fromISO \<Rightarrow>
                  let selected = filter (\<lambda>f. includes_arr srcs (feed_id f)) FEEDS
                  in if selected = []
                     then (Json_message 422 ''Invalid inputs (no matching sources)'', net)
                     else
                       (case fetch_all e fromISO exclude selected [] net of
                          (Inl err, net') \<Rightarrow> (Json_caught 500 err, net')
                        | (Inr all, net') \<Rightarrow>
                            (Json_digest
                               (compose (lowerUnicode e) (isoNow e)
                                  (candidates digital_first_only all) max_items_per_section),
                             net')))"

section \<open>The minimal service\<close>

text \<open>
  The second variant of the service (\<open>server.js\<close>) has its own feed table and one
  items route. It checks the caller's key differently, does not check the provider
  credential, does not classify and hashes the url alone.
\<close>

record server_feed =
  sf_feed_id :: string
  sf_name :: string
  sf_domains :: "string list"
  sf_q :: string

definition FEEDS_server :: "server_feed list" where
  \<open>FEEDS_server =
    [\<lparr> sf_feed_id = ''tubefilter'', sf_name = ''Tubefilter'',
       sf_domains = [''tubefilter.com''],
       sf_q = ''(YouTube OR TikTok OR creator OR "creator economy")'' \<rparr>,
     \<lparr> sf_feed_id = ''ppc_land'', sf_name = ''PPC Land'', sf_domains = [''ppc.land''],
       sf_q = ''(TikTok OR YouTube OR ads OR creator)'' \<rparr>,
     \<lparr> sf_feed_id = ''hollywood_reporter'', sf_name = ''Hollywood Reporter'',
       sf_domains = [''hollywoodreporter.com''],
       sf_q = ''(YouTube OR TikTok OR creator OR "digital-first")'' \<rparr>,
     \<lparr> sf_feed_id = ''publishpress'', sf_name = ''PublishPress'',
       sf_domains = [''publishpress.com''],
       sf_q = ''(creator OR newsletter OR YouTube OR TikTok)'' \<rparr>,
     \<lparr> sf_feed_id = ''google_news_youtube_series_us_en'',
       sf_name = ''YouTube Series (proxy)'',
       sf_domains = [''tubefilter.com'', ''hollywoodreporter.com'', ''variety.com'', ''deadline.com''],
       sf_q = ''(YouTube AND (series OR "creator series" OR episodic))'' \<rparr>,
     \<lparr> sf_feed_id = ''tiktok_creativecenter_trends'', sf_name = ''TikTok Trends (proxy)'',
       sf_domains = [''adweek.com'', ''digiday.com'', ''socialmediatoday.com'', ''sproutsocial.com''],
       sf_q = ''(TikTok AND (trends OR trending OR hashtags OR sounds))'' \<rparr>]\<close>

definition auth_server :: "env \<Rightarrow> string option \<Rightarrow> auth_result" where
  "auth_server e key =
     (if key \<noteq> BROKER_KEY e then Unauthorized 401 ''Invalid API key'' else Next)"

definition idFor :: "jsval \<Rightarrow> js_error + digest_hex" where
  "idFor u = (case u of JStr s \<Rightarrow> Inr (SHA1_hex s) | v \<Rightarrow> Inl (Invalid_hash_data v))"

definition newsapiFetch ::
  "env \<Rightarrow> server_feed \<Rightarrow> nat \<Rightarrow> request list
     \<Rightarrow> (js_error + search_body) \<times> request list" where
  "newsapiFetch e f limit net =
     (let req = \<lparr> params = [(''q'', sf_q f), (''domains'', join '','' (sf_domains f)),
                              (''sortBy'', ''publishedAt''), (''pageSize'', String_nat limit)],
                   api_key = NEWSAPI_KEY e \<rparr>
      in (case provider e (length net) req of
            Reply_throws err \<Rightarrow> (Inl err, net @ [req])
          | Reply_not_ok st body \<Rightarrow> (Inl (Error body), net @ [req])
          | Reply_ok data \<Rightarrow> (Inr data, net @ [req])))"

record server_item =
  s_id :: digest_hex
  s_title :: jsval
  s_url :: jsval
  s_source :: string
  s_published_at :: jsval
  s_snippet :: jsval
  s_classification :: classification

definition to_server_item :: "string \<Rightarrow> raw_article \<Rightarrow> js_error + server_item" where
  "to_server_item fid a =
     (case idFor (a_url a) of
        Inl err \<Rightarrow> Inl err
      | Inr h \<Rightarrow>
          Inr \<lparr> s_id = h, s_title = a_title a, s_url = a_url a, s_source = fid,
                s_published_at = a_publishedAt a, s_snippet = a_description a,
                s_classification = \<lparr> digital_first = True, excluded_reasons = [] \<rparr> \<rparr>)"

text \<open>On an element that is \<open>null\<close> the first step, reading \<open>url\<close>, throws.\<close>

fun to_server_entry :: "string \<Rightarrow> article_entry \<Rightarrow> js_error + server_item" where
  "to_server_entry fid Null_entry = Inl (Cannot_read_null ''url'')"
| "to_server_entry fid (Entry a) = to_server_item fid a"

datatype server_response =
    SJson_message nat string
  | SJson_caught nat js_error
  | SJson_items "server_item list"

definition server_feed_items ::
  "env \<Rightarrow> string \<Rightarrow> request list \<Rightarrow> server_response \<times> request list" where
  "server_feed_items e fid net =
     (case find (\<lambda>f. sf_feed_id f = fid) FEEDS_server of
        None \<Rightarrow> (SJson_message 404 ''Unknown feed_id'', net)
      | Some f \<Rightarrow>
          (case newsapiFetch e f 15 net of
             (Inl err, net') \<Rightarrow> (SJson_caught 500 err, net')
           | (Inr data, net') \<Rightarrow>
               (case articles_or_empty data of
                  Inl err \<Rightarrow> (SJson_caught 500 err, net')
                | Inr entries \<Rightarrow>
                    (case map_throwing (to_server_entry (sf_feed_id f)) entries of
                       Inl err \<Rightarrow> (SJson_caught 500 err, net')
                     | Inr items \<Rightarrow> (SJson_items items, net')))))"

section \<open>Example inputs\<close>

text \<open>
  Three provider records, and a world in which every search returns them. The texts of
  the records are ASCII, so the case table of that world is never consulted.
\<close>

definition article_bond :: raw_article where
  "article_bond =
     \<lparr> a_title = JStr ''Quarterly bond market report'', a_description = JNull,
       a_url = JStr ''https://example.com/bond'', a_publishedAt = JUndefined \<rparr>"

definition article_tiktok :: raw_article where
  "article_tiktok =
     \<lparr> a_title = JStr ''TikTok Shorts launch announced'', a_description = JNull,
       a_url = JStr ''https://example.com/tiktok'',
       a_publishedAt = JStr ''2024-05-01T10:00:00Z'' \<rparr>"

definition article_youtube :: raw_article where
  "article_youtube =
     \<lparr> a_title = JStr ''YouTube creator fund update'',
       a_description = JStr ''A case study in revenue'',
       a_url = JStr ''https://example.com/youtube'',
       a_publishedAt = JStr ''2024-05-01T11:00:00Z'' \<rparr>"

definition example_env :: env where
  "example_env =
     \<lparr> NEWSAPI_KEY = Some ''news-key'', BROKER_KEY = Some ''broker-key'',
       isoNow = ''2024-05-02T00:00:00.000Z'',
       isoSince = (\<lambda>h. Some ''2024-04-25T00:00:00.000Z''),
       provider =
         (\<lambda>n r. Reply_ok
            (Body (Articles [Entry article_bond, Entry article_tiktok, Entry article_youtube]))),
       lowerUnicode = (\<lambda>s. s) \<rparr>"

text \<open>Two titles that spell a keyword with the Kelvin sign in place of \<open>K\<close>.\<close>

definition kelvin_tiktok :: string where
  "kelvin_tiktok = ''Ti'' @ [CHR 0xE2, CHR 0x84, CHR 0xAA] @ ''Tok dance challenge''"

definition kelvin_breakdown :: string where
  "kelvin_breakdown = ''Brea'' @ [CHR 0xE2, CHR 0x84, CHR 0xAA] @ ''down of a newsletter''"

definition example_body :: digest_body where
  "example_body =
     \<lparr> b_sources = Some [''tubefilter'', ''no_such_feed''], b_window_hours = None,
       b_max_items_per_section = None, b_digital_first_only = None, b_exclude = None \<rparr>"

text \<open>The items the full service builds from them for the feed \<open>tubefilter\<close>.\<close>

definition item_bond :: item where
  "item_bond =
     normalize_article (lowerUnicode example_env) (isoNow example_env)
       [''linear'', ''streaming''] ''tubefilter'' article_bond"

definition item_tiktok :: item where
  "item_tiktok =
     normalize_article (lowerUnicode example_env) (isoNow example_env)
       [''linear'', ''streaming''] ''tubefilter'' article_tiktok"

definition item_youtube :: item where
  "item_youtube =
     normalize_article (lowerUnicode example_env) (isoNow example_env)
       [''linear'', ''streaming''] ''tubefilter'' article_youtube"

section \<open>Strings\<close>

lemmas eval_patterns =
  digitalHints_def linear_pattern_def streaming_pattern_def launch_pattern_def
  formats_pattern_def platform_pattern_def examples_pattern_def

lemma includes_str_sublist: "includes_str t p \<longleftrightarrow> sublist p t"
  by (induction t) (auto simp: sublist_Cons_right)

lemma regex_test_sublist: "regex_test alts t \<longleftrightarrow> (\<exists>p \<in> set alts. sublist p t)"
  by (simp add: regex_test_def list_ex_iff includes_str_sublist)

lemma slice0_nonneg: "0 \<le> e \<Longrightarrow> slice0 xs e = take (nat e) xs"
  by (simp add: slice0_def Let_def min_def)

text \<open>On ASCII text lowercasing goes character by character, whatever the case tables.\<close>

lemma kelvin_to_K_ascii: "is_ascii s \<Longrightarrow> kelvin_to_K s = s"
  by (induction s rule: kelvin_to_K.induct) (auto simp: is_ascii_def)

lemma toLowerCase_ascii: "is_ascii s \<Longrightarrow> toLowerCase U s = map lower_char s"
  by (simp add: toLowerCase_def kelvin_to_K_ascii)

text \<open>The Kelvin sign is lowercased to \<open>k\<close>.\<close>

lemma toLowerCase_kelvin_sign:
  "toLowerCase U kelvin_tiktok = ''tiktok dance challenge''"
  "toLowerCase U kelvin_breakdown = ''breakdown of a newsletter''"
  by (simp_all add: toLowerCase_def kelvin_tiktok_def kelvin_breakdown_def is_ascii_def
        lower_char_def)

section \<open>The example inputs, evaluated\<close>

lemma classify_text_examples:
  "classify_text U (classifier_input article_bond)
     = ''quarterly bond market report'' @ [CHR 0x0A, CHR 0x0A] @ ''https://example.com/bond''"
  "classify_text U (classifier_input article_tiktok)
     = ''tiktok shorts launch announced'' @ [CHR 0x0A, CHR 0x0A] @ ''https://example.com/tiktok''"
  "classify_text U (classifier_input article_youtube)
     = ''youtube creator fund update'' @ [CHR 0x0A] @ ''a case study in revenue'' @ [CHR 0x0A]
         @ ''https://example.com/youtube''"
  by (simp_all add: classify_text_def classifier_input_def toLowerCase_ascii is_ascii_def
        lower_char_def article_bond_def article_tiktok_def article_youtube_def)

lemma classify_examples:
  "classifyDigitalFirst U (classifier_input article_bond) ex
     = \<lparr> digital_first = False, excluded_reasons = [] \<rparr>"
  "classifyDigitalFirst U (classifier_input article_tiktok) ex
     = \<lparr> digital_first = True, excluded_reasons = [] \<rparr>"
  "classifyDigitalFirst U (classifier_input article_youtube) ex
     = \<lparr> digital_first = True, excluded_reasons = [] \<rparr>"
  by (simp_all add: classifyDigitalFirst_def Let_def classify_text_examples regex_test_def
        eval_patterns)

lemma normalize_examples:
  "normalize_article U now ex fid article_bond =
     \<lparr> item_id = SHA256_hex (''https://example.com/bond|'' @ now),
       title = ''Quarterly bond market report'', url = JStr ''https://example.com/bond'',
       source = fid, published_at = now, snippet = [], labels = [],
       classification = \<lparr> digital_first = False, excluded_reasons = [] \<rparr> \<rparr>"
  "normalize_article U now ex fid article_tiktok =
     \<lparr> item_id = SHA256_hex ''https://example.com/tiktok|2024-05-01T10:00:00Z'',
       title = ''TikTok Shorts launch announced'', url = JStr ''https://example.com/tiktok'',
       source = fid, published_at = ''2024-05-01T10:00:00Z'', snippet = [], labels = [],
       classification = \<lparr> digital_first = True, excluded_reasons = [] \<rparr> \<rparr>"
  "normalize_article U now ex fid article_youtube =
     \<lparr> item_id = SHA256_hex ''https://example.com/youtube|2024-05-01T11:00:00Z'',
       title = ''YouTube creator fund update'', url = JStr ''https://example.com/youtube'',
       source = fid, published_at = ''2024-05-01T11:00:00Z'',
       snippet = ''A case study in revenue'', labels = [],
       classification = \<lparr> digital_first = True, excluded_reasons = [] \<rparr> \<rparr>"
    apply (simp_all add: normalize_article_def Let_def classify_examples stableId_def)
    apply (simp_all add: article_bond_def article_tiktok_def article_youtube_def)
  done

lemma to_server_item_examples:
  "to_server_item fid article_bond =
     Inr \<lparr> s_id = SHA1_hex ''https://example.com/bond'',
           s_title = JStr ''Quarterly bond market report'',
           s_url = JStr ''https://example.com/bond'', s_source = fid,
           s_published_at = JUndefined, s_snippet = JNull,
           s_classification = \<lparr> digital_first = True, excluded_reasons = [] \<rparr> \<rparr>"
  "to_server_item fid article_tiktok =
     Inr \<lparr> s_id = SHA1_hex ''https://example.com/tiktok'',
           s_title = JStr ''TikTok Shorts launch announced'',
           s_url = JStr ''https://example.com/tiktok'', s_source = fid,
           s_published_at = JStr ''2024-05-01T10:00:00Z'', s_snippet = JNull,
           s_classification = \<lparr> digital_first = True, excluded_reasons = [] \<rparr> \<rparr>"
  by (simp_all add: to_server_item_def idFor_def article_bond_def article_tiktok_def)

lemma item_fields:
  "url item_bond = JStr ''https://example.com/bond''"
  "url item_tiktok = JStr ''https://example.com/tiktok''"
  "url item_youtube = JStr ''https://example.com/youtube''"
  "digital_first (classification item_bond) = False"
  "digital_first (classification item_tiktok) = True"
  "digital_first (classification item_youtube) = True"
  by (simp_all add: item_bond_def item_tiktok_def item_youtube_def normalize_examples)

lemma score_sections:
  "map (score U it) section_names =
     [if regex_test launch_pattern (score_text U it) then 4 else 1,
      if regex_test formats_pattern (score_text U it) then 4 else 1,
      if regex_test platform_pattern (score_text U it) then 4 else 1,
      if regex_test examples_pattern (score_text U it) then 4 else 1]"
  by (simp add: score_def Let_def section_names_def launches_name_def formats_name_def
        platform_name_def examples_name_def)

lemma score_range: "score U it sec = 1 \<or> score U it sec = 4"
  by (simp add: score_def Let_def)

lemma score_text_items:
  "score_text U item_bond = ''quarterly bond market report ''"
  "score_text U item_tiktok = ''tiktok shorts launch announced ''"
  "score_text U item_youtube = ''youtube creator fund update a case study in revenue''"
  "score_text U (it\<lparr>title := ''TikTok Shorts launch announced'', snippet := []\<rparr>)
     = ''tiktok shorts launch announced ''"
  by (simp_all add: item_bond_def item_tiktok_def item_youtube_def normalize_examples
        score_text_def toLowerCase_ascii is_ascii_def lower_char_def)

lemma example_matches:
  "\<not> regex_test launch_pattern ''quarterly bond market report ''"
  "\<not> regex_test formats_pattern ''quarterly bond market report ''"
  "\<not> regex_test platform_pattern ''quarterly bond market report ''"
  "\<not> regex_test examples_pattern ''quarterly bond market report ''"
  "regex_test launch_pattern ''tiktok shorts launch announced ''"
  "regex_test formats_pattern ''tiktok shorts launch announced ''"
  "\<not> regex_test platform_pattern ''tiktok shorts launch announced ''"
  "\<not> regex_test examples_pattern ''tiktok shorts launch announced ''"
  "\<not> regex_test launch_pattern ''youtube creator fund update a case study in revenue''"
  "\<not> regex_test formats_pattern ''youtube creator fund update a case study in revenue''"
  "regex_test platform_pattern ''youtube creator fund update a case study in revenue''"
  "regex_test examples_pattern ''youtube creator fund update a case study in revenue''"
  by (simp_all add: regex_test_def eval_patterns)

lemma score_items:
  "map (score U item_bond) section_names = [1, 1, 1, 1]"
  "map (score U item_tiktok) section_names = [4, 4, 1, 1]"
  "map (score U item_youtube) section_names = [1, 1, 4, 4]"
  by (simp_all only: score_sections score_text_items example_matches if_True if_False)

text \<open>
  A title that spells \<open>TikTok\<close> with the Kelvin sign matches the hint pattern, and one
  that spells \<open>Breakdown\<close> with it scores 4 in the examples section.
\<close>

lemma kelvin_sign_classified:
  "digital_first
     (classifyDigitalFirst U
        \<lparr> tf_title = kelvin_tiktok, tf_description = [], tf_url = JUndefined \<rparr> ex)"
proof -
  have "classify_text U \<lparr> tf_title = kelvin_tiktok, tf_description = [], tf_url = JUndefined \<rparr>
          = ''tiktok dance challenge'' @ [CHR 0x0A, CHR 0x0A]"
    by (simp add: classify_text_def toLowerCase_def kelvin_tiktok_def is_ascii_def lower_char_def)
  then show ?thesis
    by (simp add: classifyDigitalFirst_def Let_def regex_test_def eval_patterns)
qed

lemma kelvin_sign_scored:
  "map (score U (it\<lparr>title := kelvin_breakdown, snippet := []\<rparr>)) section_names = [1, 1, 1, 4]"
proof -
  have "score_text U (it\<lparr>title := kelvin_breakdown, snippet := []\<rparr>)
          = ''breakdown of a newsletter ''"
    by (simp add: score_text_def toLowerCase_def kelvin_breakdown_def is_ascii_def lower_char_def)
  then show ?thesis
    by (simp add: score_sections regex_test_def eval_patterns)
qed

section \<open>Authentication\<close>

text \<open>
  With a non-empty secret configured, the full service rejects a request exactly when
  its header is missing or differs from the secret; so does the minimal service
  whenever the variable is set.
\<close>

lemma auth_configured:
  "\<not> falsy (BROKER_KEY e) \<Longrightarrow>
     (auth e key \<noteq> Next) \<longleftrightarrow> (key = None \<or> key \<noteq> BROKER_KEY e)"
  by (cases key; cases "BROKER_KEY e") (auto simp: auth_def)

lemma auth_rejects_with_401:
  "auth e key = Next \<or> auth e key = Unauthorized 401 ''Missing/invalid API key''"
  by (simp add: auth_def)

lemma auth_server_configured:
  "BROKER_KEY e \<noteq> None \<Longrightarrow>
     (auth_server e key \<noteq> Next) \<longleftrightarrow> (key = None \<or> key \<noteq> BROKER_KEY e)"
  by (auto simp: auth_server_def)

text \<open>
  Claim C8: the authentication check rejects with status 401 exactly when the
  \<open>X-API-Key\<close> header is missing or differs from the configured secret, and passes
  the request on otherwise.

  The minimal service compares the header with the variable and nothing else. When
  \<open>BROKER_KEY\<close> is unset, a request without the header is passed on, although its
  key is missing; the full service rejects the same request.
\<close>

theorem auth_server_unset_key_passes:
  "auth_server (e\<lparr>BROKER_KEY := None\<rparr>) None = Next \<and>
   auth (e\<lparr>BROKER_KEY := None\<rparr>) None = Unauthorized 401 ''Missing/invalid API key''"
  by (simp add: auth_server_def auth_def)

theorem auth_server_unset_key_passes_witness:
  "auth_server (example_env\<lparr>BROKER_KEY := None\<rparr>) None = Next \<and>
   auth (example_env\<lparr>BROKER_KEY := None\<rparr>) None
     = Unauthorized 401 ''Missing/invalid API key''"
  using auth_server_unset_key_passes [of example_env] by simp

section \<open>The search call\<close>

text \<open>
  In the full service a missing or empty credential ends the call before a request is
  built: the list of requests sent is unchanged.
\<close>

lemma newsapiEverything_no_key:
  "falsy (NEWSAPI_KEY e) \<Longrightarrow>
     newsapiEverything e qq doms fromISO pageSize net =
       (Inl (Error ''Server misconfigured: NEWSAPI_KEY missing''), net)"
  by (simp add: newsapiEverything_def)

lemma newsapiEverything_sends_one:
  "\<not> falsy (NEWSAPI_KEY e) \<Longrightarrow>
     length (snd (newsapiEverything e qq doms fromISO pageSize net)) = Suc (length net)"
  by (simp add: newsapiEverything_def Let_def split: reply.splits)

text \<open>
  Claim C9: with the provider credential absent, the article search call fails with a
  configuration error before any network request is attempted.

  The search call of the minimal service has no such check. With \<open>NEWSAPI_KEY\<close>
  unset it sends the request, with \<open>undefined\<close> for the key, and returns whatever the
  provider answers.
\<close>

theorem newsapiFetch_no_key_sends_request:
  "snd (newsapiFetch (e\<lparr>NEWSAPI_KEY := None\<rparr>) f limit net) =
     net @ [\<lparr> params = [(''q'', sf_q f), (''domains'', join '','' (sf_domains f)),
                         (''sortBy'', ''publishedAt''), (''pageSize'', String_nat limit)],
              api_key = None \<rparr>]"
  by (simp add: newsapiFetch_def Let_def split: reply.splits)

theorem newsapiFetch_no_key_sends_request_witness:
  "newsapiFetch (example_env\<lparr>NEWSAPI_KEY := None\<rparr>)
       \<lparr> sf_feed_id = ''ppc_land'', sf_name = ''PPC Land'', sf_domains = [''ppc.land''],
         sf_q = ''(TikTok OR YouTube OR ads OR creator)'' \<rparr> 15 [] =
     (Inr (Body (Articles [Entry article_bond, Entry article_tiktok, Entry article_youtube])),
      [\<lparr> params = [(''q'', ''(TikTok OR YouTube OR ads OR creator)''),
                    (''domains'', ''ppc.land''), (''sortBy'', ''publishedAt''),
                    (''pageSize'', ''15'')],
         api_key = None \<rparr>])"
  using newsapiFetch_no_key_sends_request
    [of example_env "\<lparr> sf_feed_id = ''ppc_land'', sf_name = ''PPC Land'',
        sf_domains = [''ppc.land''], sf_q = ''(TikTok OR YouTube OR ads OR creator)'' \<rparr>" 15 "[]"]
  by (simp add: newsapiFetch_def example_env_def String_nat.simps)

section \<open>Classification\<close>

text \<open>The items route of the minimal service, in the example world.\<close>

lemma server_feed_items_example:
  "fst (server_feed_items example_env ''tubefilter'' []) =
     SJson_items
       [\<lparr> s_id = SHA1_hex ''https://example.com/bond'',
          s_title = JStr ''Quarterly bond market report'',
          s_url = JStr ''https://example.com/bond'', s_source = ''tubefilter'',
          s_published_at = JUndefined, s_snippet = JNull,
          s_classification = \<lparr> digital_first = True, excluded_reasons = [] \<rparr> \<rparr>,
        \<lparr> s_id = SHA1_hex ''https://example.com/tiktok'',
          s_title = JStr ''TikTok Shorts launch announced'',
          s_url = JStr ''https://example.com/tiktok'', s_source = ''tubefilter'',
          s_published_at = JStr ''2024-05-01T10:00:00Z'', s_snippet = JNull,
          s_classification = \<lparr> digital_first = True, excluded_reasons = [] \<rparr> \<rparr>,
        \<lparr> s_id = SHA1_hex ''https://example.com/youtube'',
          s_title = JStr ''YouTube creator fund update'',
          s_url = JStr ''https://example.com/youtube'', s_source = ''tubefilter'',
          s_published_at = JStr ''2024-05-01T11:00:00Z'',
          s_snippet = JStr ''A case study in revenue'',
          s_classification = \<lparr> digital_first = True, excluded_reasons = [] \<rparr> \<rparr>]"
proof -
  have f: "find (\<lambda>f. sf_feed_id f = ''tubefilter'') FEEDS_server = Some (FEEDS_server ! 0)"
    "sf_feed_id (FEEDS_server ! 0) = ''tubefilter''"
    by (simp_all add: FEEDS_server_def)
  have "provider example_env n r =
          Reply_ok (Body (Articles [Entry article_bond, Entry article_tiktok, Entry article_youtube]))"
    for n r
    by (simp add: example_env_def)
  then show ?thesis
    by (simp add: server_feed_items_def f newsapiFetch_def Let_def to_server_item_examples)
       (simp add: to_server_item_def idFor_def article_youtube_def)
qed

text \<open>
  Claim C1: for every item the pipeline produces, \<open>digital_first\<close> holds exactly when
  \<open>excluded_reasons\<close> is empty and the digital-first hint pattern matches the lowercased
  text of title, description and url; so \<open>digital_first\<close> implies that
  \<open>excluded_reasons\<close> is empty.

  The full service does this for every article, exclusion list, feed and clock reading.
  The items route of the minimal service does not classify: it writes
  \<open>digital_first: true\<close> into every item. The item it builds for a report on bond
  markets is marked digital-first, and the hint pattern does not match the report's text.
\<close>

theorem classification_digital_first_iff:
  "(digital_first (classification (normalize_article U now ex fid a)) \<longleftrightarrow>
      excluded_reasons (classification (normalize_article U now ex fid a)) = [] \<and>
      regex_test digitalHints (classify_text U (classifier_input a))) \<and>
   to_server_item fid article_bond =
     Inr \<lparr> s_id = SHA1_hex ''https://example.com/bond'',
           s_title = JStr ''Quarterly bond market report'',
           s_url = JStr ''https://example.com/bond'', s_source = fid,
           s_published_at = JUndefined, s_snippet = JNull,
           s_classification = \<lparr> digital_first = True, excluded_reasons = [] \<rparr> \<rparr> \<and>
   \<not> regex_test digitalHints (classify_text U (classifier_input article_bond))"
  by (auto simp: normalize_article_def classifyDigitalFirst_def Let_def
        to_server_item_examples classify_text_examples regex_test_def digitalHints_def)

theorem classification_digital_first_iff_witness:
  "digital_first (classification
     (normalize_article (lowerUnicode example_env) (isoNow example_env)
        [''linear'', ''streaming''] ''tubefilter'' article_tiktok)) \<and>
   excluded_reasons (classification
     (normalize_article (lowerUnicode example_env) (isoNow example_env)
        [''linear'', ''streaming''] ''tubefilter'' article_tiktok)) = [] \<and>
   regex_test digitalHints
     (classify_text (lowerUnicode example_env) (classifier_input article_tiktok)) \<and>
   \<not> digital_first (classification
     (normalize_article (lowerUnicode example_env) (isoNow example_env)
        [''linear'', ''streaming''] ''tubefilter'' article_bond)) \<and>
   \<not> regex_test digitalHints
     (classify_text (lowerUnicode example_env) (classifier_input article_bond)) \<and>
   map (digital_first \<circ> s_classification)
     (case fst (server_feed_items example_env ''tubefilter'' []) of
        SJson_items items \<Rightarrow> items | _ \<Rightarrow> []) = [True, True, True]"
  using classification_digital_first_iff
    [of "lowerUnicode example_env" "isoNow example_env" "[''linear'', ''streaming'']"
        "''tubefilter''" article_tiktok]
    classification_digital_first_iff
    [of "lowerUnicode example_env" "isoNow example_env" "[''linear'', ''streaming'']"
        "''tubefilter''" article_bond]
  by (simp add: normalize_examples classify_text_examples server_feed_items_example)

text \<open>
  Claim C7: the classification does not depend on the order of \<open>exclude_tags\<close>, only on
  the set of tags, and \<open>excluded_reasons\<close> lists the matching tags in the fixed order
  \<open>linear\<close>, \<open>streaming\<close>.
\<close>

theorem classify_exclude_order_independent:
  "(set ex1 = set ex2 \<longrightarrow> classifyDigitalFirst U f ex1 = classifyDigitalFirst U f ex2) \<and>
   excluded_reasons (classifyDigitalFirst U f ex) =
     (if ''linear'' \<in> set ex \<and> regex_test linear_pattern (classify_text U f)
      then [''linear''] else [])
     @ (if ''streaming'' \<in> set ex \<and> regex_test streaming_pattern (classify_text U f)
        then [''streaming''] else [])"
  by (simp add: classifyDigitalFirst_def Let_def includes_arr_def)

theorem classify_exclude_order_independent_witness:
  "set [''streaming'', ''linear''] = set [''linear'', ''streaming''] \<and>
   classifyDigitalFirst (lowerUnicode example_env)
       \<lparr> tf_title = ''Netflix streaming on cable'', tf_description = [],
         tf_url = JStr ''https://example.com/n'' \<rparr> [''streaming'', ''linear''] =
     classifyDigitalFirst (lowerUnicode example_env)
       \<lparr> tf_title = ''Netflix streaming on cable'', tf_description = [],
         tf_url = JStr ''https://example.com/n'' \<rparr> [''linear'', ''streaming''] \<and>
   excluded_reasons
     (classifyDigitalFirst (lowerUnicode example_env)
        \<lparr> tf_title = ''Netflix streaming on cable'', tf_description = [],
          tf_url = JStr ''https://example.com/n'' \<rparr> [''streaming'', ''linear''])
     = [''linear'', ''streaming'']"
  using classify_exclude_order_independent
    [of "[''streaming'', ''linear'']" "[''linear'', ''streaming'']" "lowerUnicode example_env"
        "\<lparr> tf_title = ''Netflix streaming on cable'', tf_description = [],
           tf_url = JStr ''https://example.com/n'' \<rparr>" "[''streaming'', ''linear'']"]
  by (auto simp: classify_text_def toLowerCase_ascii is_ascii_def lower_char_def regex_test_def
        eval_patterns)

section \<open>Identity of an item\<close>

text \<open>
  Claim C3: the id of a normalised item is the cryptographic digest of the article's
  url, a fixed separator and its resolved \<open>published_at\<close>; so normalising the same
  article twice at the same clock reading gives the same id.

  The full service does this: the id is the SHA-256 digest of url, \<open>|\<close> and the resolved
  \<open>published_at\<close> (the provider's value, or the clock reading when that is absent or
  empty), and it depends on nothing else. The minimal service hashes the url alone, with
  SHA-1: its id for an article is not the digest of url and timestamp, and two records of
  one url with different timestamps get the same id. A SHA-1 digest has 40 hexadecimal
  digits and a SHA-256 digest 64, so the two never coincide.
\<close>

theorem item_id_fingerprint:
  "item_id (normalize_article U now ex fid a) =
     SHA256_hex (template (a_url a) @ ''|'' @ published_at (normalize_article U now ex fid a)) \<and>
   published_at (normalize_article U now ex fid a) = or_default (a_publishedAt a) now \<and>
   (a_url a = a_url b \<and> a_publishedAt a = a_publishedAt b \<longrightarrow>
      item_id (normalize_article U now ex fid a) = item_id (normalize_article U' now ex' fid' b)) \<and>
   map_sum id s_id (to_server_item fid article_tiktok) =
     Inr (SHA1_hex ''https://example.com/tiktok'') \<and>
   SHA1_hex ''https://example.com/tiktok''
     \<noteq> SHA256_hex (''https://example.com/tiktok'' @ ''|'' @ ''2024-05-01T10:00:00Z'') \<and>
   map_sum id s_id
       (to_server_item fid (article_tiktok\<lparr>a_publishedAt := JStr ''2030-01-01T00:00:00Z''\<rparr>)) =
     map_sum id s_id (to_server_item fid article_tiktok)"
  by (cases "a_publishedAt a")
     (auto simp: normalize_article_def stableId_def Let_def to_server_item_def idFor_def
        article_tiktok_def)

theorem item_id_fingerprint_witness:
  "item_id (normalize_article (lowerUnicode example_env) ''2024-05-02T00:00:00.000Z''
       [''linear''] ''tubefilter'' article_bond) =
     SHA256_hex ''https://example.com/bond|2024-05-02T00:00:00.000Z'' \<and>
   a_url article_bond = a_url (article_bond\<lparr>a_title := JNull\<rparr>) \<and>
   a_publishedAt article_bond = a_publishedAt (article_bond\<lparr>a_title := JNull\<rparr>) \<and>
   item_id (normalize_article (lowerUnicode example_env) ''2024-05-02T00:00:00.000Z''
       [''linear''] ''tubefilter'' article_bond) =
     item_id (normalize_article (lowerUnicode example_env) ''2024-05-02T00:00:00.000Z'' []
       ''ppc_land'' (article_bond\<lparr>a_title := JNull\<rparr>)) \<and>
   map_sum id s_id (to_server_item ''tubefilter'' article_bond) =
     Inr (SHA1_hex ''https://example.com/bond'')"
  using item_id_fingerprint
    [of "lowerUnicode example_env" "''2024-05-02T00:00:00.000Z''" "[''linear'']"
        "''tubefilter''" article_bond "article_bond\<lparr>a_title := JNull\<rparr>"
        "lowerUnicode example_env" "[]" "''ppc_land''"]
  by (simp add: normalize_examples to_server_item_examples)

section \<open>Scores\<close>

text \<open>
  Claim C6: for each of the four sections, the score of an item is 4 when the section's
  keyword pattern matches the lowercased text of title and snippet (joined by a space),
  and 1 otherwise; it is never 0. An item titled \<open>TikTok Shorts launch announced\<close>
  scores 4 in the launches section and 1 in the platform section.
\<close>

theorem score_four_or_one:
  "map (score U it) section_names =
     [if regex_test launch_pattern (score_text U it) then 4 else 1,
      if regex_test formats_pattern (score_text U it) then 4 else 1,
      if regex_test platform_pattern (score_text U it) then 4 else 1,
      if regex_test examples_pattern (score_text U it) then 4 else 1] \<and>
   score U it sec \<in> {1, 4} \<and>
   map (score U (it\<lparr>title := ''TikTok Shorts launch announced'', snippet := []\<rparr>)) section_names
     = [4, 4, 1, 1]"
  using score_range [of U it sec]
  by (simp only: score_sections score_text_items example_matches) simp

theorem score_four_or_one_witness:
  "map (score (lowerUnicode example_env) item_youtube) section_names = [1, 1, 4, 4] \<and>
   map (score (lowerUnicode example_env) item_tiktok) section_names = [4, 4, 1, 1] \<and>
   map (score (lowerUnicode example_env) item_bond) section_names = [1, 1, 1, 1]"
  using score_four_or_one [of "lowerUnicode example_env" item_youtube]
    score_four_or_one [of "lowerUnicode example_env" item_tiktok]
    score_four_or_one [of "lowerUnicode example_env" item_bond]
  by (simp only: score_text_items example_matches if_True if_False)

section \<open>Deduplication\<close>

lemma first_seen_set [simp]: "set (first_seen xs) = set xs"
  by (induction xs) auto

lemma first_seen_distinct [simp]: "distinct (first_seen xs)"
  by (induction xs) auto

lemma first_seen_snoc:
  "first_seen (xs @ [k]) = (if k \<in> set xs then first_seen xs else first_seen xs @ [k])"
  by (induction xs) auto

lemma map_set_keys:
  "map fst (map_set k v m) = (if k \<in> fst ` set m then map fst m else map fst m @ [k])"
  by (induction k v m rule: map_set.induct) auto

lemma map_set_map_of: "map_of (map_set k v m) = (map_of m)(k \<mapsto> v)"
  by (induction k v m rule: map_set.induct) (auto simp: fun_eq_iff)

lemma map_set_entries: "set (map_set k v m) \<subseteq> insert (k, v) (set m)"
  by (induction k v m rule: map_set.induct) auto

text \<open>The keys of the map after the loop are the urls in the order they first came.\<close>

lemma byUrl_keys:
  "map fst (fold (\<lambda>it byUrl. map_set (url it) it byUrl) all []) = first_seen (map url all)"
proof (induction all rule: rev_induct)
  case Nil
  show ?case by simp
next
  case (snoc x xs)
  have "fst ` set (fold (\<lambda>it byUrl. map_set (url it) it byUrl) xs []) = url ` set xs"
    using snoc.IH first_seen_set [of "map url xs"] by (metis set_map)
  with snoc.IH show ?case
    by (simp add: map_set_keys first_seen_snoc)
qed

text \<open>Looking a url up in the map gives the last item that came with it.\<close>

lemma byUrl_lookup:
  "map_of (fold (\<lambda>it byUrl. map_set (url it) it byUrl) all []) u
     = find (\<lambda>it. url it = u) (rev all)"
  by (induction all rule: rev_induct) (auto simp: map_set_map_of)

lemma byUrl_entries:
  "(k, v) \<in> set (fold (\<lambda>it byUrl. map_set (url it) it byUrl) all []) \<Longrightarrow> url v = k"
proof (induction all arbitrary: k v rule: rev_induct)
  case Nil
  then show ?case by simp
next
  case (snoc x xs)
  then show ?case
    using map_set_entries [of "url x" x "fold (\<lambda>it byUrl. map_set (url it) it byUrl) xs []"]
    by auto
qed

lemma distinct_keys_values:
  "distinct (map fst m) \<Longrightarrow> map (map_of m) (map fst m) = map (Some \<circ> snd) m"
  by (induction m) (auto simp: rev_image_eqI)

lemma dedupe_keys: "map url (dedupe all) = first_seen (map url all)"
proof -
  let ?m = "fold (\<lambda>it byUrl. map_set (url it) it byUrl) all []"
  have "map (url \<circ> snd) ?m = map fst ?m"
    by (rule map_cong [OF refl]) (auto dest: byUrl_entries)
  then show ?thesis
    by (simp add: dedupe_def byUrl_keys)
qed

lemma dedupe_values:
  "map Some (dedupe all)
     = map (\<lambda>u. find (\<lambda>it. url it = u) (rev all)) (first_seen (map url all))"
proof -
  let ?m = "fold (\<lambda>it byUrl. map_set (url it) it byUrl) all []"
  have "distinct (map fst ?m)" by (simp add: byUrl_keys)
  then have "map (map_of ?m) (map fst ?m) = map (Some \<circ> snd) ?m"
    by (rule distinct_keys_values)
  moreover have "map_of ?m = (\<lambda>u. find (\<lambda>it. url it = u) (rev all))"
    by (rule ext) (rule byUrl_lookup)
  ultimately show ?thesis
    by (simp add: dedupe_def byUrl_keys)
qed

text \<open>
  Claim C2: the merge output has no two items with one url; for a url that occurs more
  than once it holds the last occurrence, the earlier ones are dropped; and the output
  follows the order in which the urls first occurred.
\<close>

theorem dedupe_last_seen_wins:
  "distinct (map url (dedupe all)) \<and>
   map url (dedupe all) = first_seen (map url all) \<and>
   map Some (dedupe all)
     = map (\<lambda>u. find (\<lambda>it. url it = u) (rev all)) (first_seen (map url all))"
  using dedupe_values [of all] by (simp add: dedupe_keys)

theorem dedupe_last_seen_wins_witness:
  "dedupe [item_bond, item_tiktok, item_bond\<lparr>source := ''ppc_land''\<rparr>, item_youtube,
           item_tiktok\<lparr>source := ''publishpress''\<rparr>]
     = [item_bond\<lparr>source := ''ppc_land''\<rparr>, item_tiktok\<lparr>source := ''publishpress''\<rparr>,
        item_youtube]"
proof -
  let ?all = "[item_bond, item_tiktok, item_bond\<lparr>source := ''ppc_land''\<rparr>, item_youtube,
               item_tiktok\<lparr>source := ''publishpress''\<rparr>]"
  have "map Some (dedupe ?all)
          = map Some [item_bond\<lparr>source := ''ppc_land''\<rparr>,
                      item_tiktok\<lparr>source := ''publishpress''\<rparr>, item_youtube]"
    using dedupe_last_seen_wins [of ?all] by (simp add: item_fields)
  then show ?thesis
    by (rule map_injective) simp
qed

section \<open>Ranking\<close>

text \<open>
  The comparator of the ranking orders by score, highest first; the sort is the stable
  sort by the negated score.
\<close>

lemma insert_by_key:
  "insert_by (\<lambda>a b. k b - k a) x ys = insort_key (\<lambda>a. - k a) x ys"
  by (induction ys) auto

lemma sort_by_key: "sort_by (\<lambda>a b. k b - k a) xs = sort_key (\<lambda>a. - k a) xs"
  by (induction xs) (auto simp: sort_by_def insert_by_key)

lemma ranked_sort_key: "ranked U items sec = sort_key (\<lambda>it. - score U it sec) items"
  by (simp add: ranked_def sort_by_key)

lemma ranked_descending: "sorted (rev (map (\<lambda>it. score U it sec) (ranked U items sec)))"
proof -
  have "sorted (map (\<lambda>it. - score U it sec) (ranked U items sec))"
    by (simp add: ranked_sort_key)
  then have "sorted (map uminus (map (\<lambda>it. score U it sec) (ranked U items sec)))"
    by (simp add: comp_def)
  then show ?thesis
    by (simp add: sorted_wrt_rev sorted_map sorted_wrt_map)
qed

lemma ranked_stable:
  "filter (\<lambda>it. score U it sec = n) (ranked U items sec)
     = filter (\<lambda>it. score U it sec = n) items"
  using sort_key_stable [of "\<lambda>it. - score U it sec" "- n" items]
  by (simp add: ranked_sort_key)

lemma ranked_length: "length (ranked U items sec) = length items"
  by (simp add: ranked_sort_key)

lemma ranked_set: "set (ranked U items sec) = set items"
  by (simp add: ranked_sort_key)

text \<open>
  A score is 4 or 1, so a ranking is the items that score 4 followed by the others, each
  group in its former order.
\<close>

lemma insert_by_front: "(\<forall>y \<in> set ys. cmp x y \<le> 0) \<Longrightarrow> insert_by cmp x ys = x # ys"
  by (cases ys) auto

lemma insert_by_skip:
  "(\<forall>y \<in> set ys. 0 < cmp x y) \<Longrightarrow> insert_by cmp x (ys @ zs) = ys @ insert_by cmp x zs"
  by (induction ys) auto

lemma ranked_two_blocks:
  "ranked U items sec =
     filter (\<lambda>it. score U it sec = 4) items @ filter (\<lambda>it. score U it sec \<noteq> 4) items"
proof (induction items)
  case Nil
  show ?case by (simp add: ranked_def sort_by_def)
next
  case (Cons x xs)
  let ?cmp = "\<lambda>a b. score U b sec - score U a sec"
  let ?hi = "filter (\<lambda>it. score U it sec = 4) xs"
  let ?lo = "filter (\<lambda>it. score U it sec \<noteq> 4) xs"
  have step: "ranked U (x # xs) sec = insert_by ?cmp x (?hi @ ?lo)"
    using Cons.IH by (simp add: ranked_def sort_by_def)
  show ?case
  proof (cases "score U x sec = 4")
    case True
    have "\<forall>y \<in> set (?hi @ ?lo). ?cmp x y \<le> 0"
    proof
      fix y assume "y \<in> set (?hi @ ?lo)"
      show "?cmp x y \<le> 0" using True score_range [of U y sec] by auto
    qed
    then show ?thesis
      using True step by (simp add: insert_by_front)
  next
    case False
    then have one: "score U x sec = 1" using score_range [of U x sec] by simp
    have "\<forall>y \<in> set ?hi. 0 < ?cmp x y" using one by simp
    moreover have "\<forall>y \<in> set ?lo. ?cmp x y \<le> 0"
    proof
      fix y assume "y \<in> set ?lo"
      then have "score U y sec = 1" using score_range [of U y sec] by simp
      then show "?cmp x y \<le> 0" using one by simp
    qed
    ultimately have "insert_by ?cmp x (?hi @ ?lo) = ?hi @ x # ?lo"
      by (simp add: insert_by_skip insert_by_front)
    then show ?thesis
      using False step by simp
  qed
qed

lemma compose_sections:
  "0 \<le> m \<Longrightarrow>
     sections (compose U now items (Finite (of_int m))) =
       map (\<lambda>s. \<lparr> sec_name = s,
                  sec_items = map render (take (nat m) (ranked U items s)) \<rparr>) section_names"
  by (simp add: compose_def slice0_nonneg)

lemma compose_citations: "citations (compose U now items m) = map cite (take 200 items)"
  by (simp add: compose_def slice0_nonneg)

section \<open>The example request, evaluated\<close>

lemma score_items_each:
  "score U item_bond launches_name = 1"
  "score U item_bond formats_name = 1"
  "score U item_bond platform_name = 1"
  "score U item_bond examples_name = 1"
  "score U item_tiktok launches_name = 4"
  "score U item_tiktok formats_name = 4"
  "score U item_tiktok platform_name = 1"
  "score U item_tiktok examples_name = 1"
  "score U item_youtube launches_name = 1"
  "score U item_youtube formats_name = 1"
  "score U item_youtube platform_name = 4"
  "score U item_youtube examples_name = 4"
  using score_items [of U] by (simp_all add: section_names_def)

lemma ranked_examples:
  "map (ranked U [item_bond, item_tiktok, item_youtube]) section_names =
     [[item_tiktok, item_bond, item_youtube], [item_tiktok, item_bond, item_youtube],
      [item_youtube, item_bond, item_tiktok], [item_youtube, item_bond, item_tiktok]]"
  by (simp add: section_names_def ranked_two_blocks score_items_each)

lemma slice0_examples:
  "slice0_number [a, b, c] (Finite (- 1)) = [a, b]"
  "slice0_number [a, b, c] (Finite 2) = [a, b]"
  "slice0_number [a, b, c] (Finite 6) = [a, b, c]"
  "slice0_number [a, b, c] NaN = []"
  "slice0 [b, c] 200 = [b, c]"
  "slice0 [a, b, c] 200 = [a, b, c]"
  by (simp_all add: slice0_def ceiling_minus)

lemma dedupe_examples:
  "dedupe [item_bond, item_tiktok, item_youtube] = [item_bond, item_tiktok, item_youtube]"
  by (simp add: dedupe_def item_fields)

lemma candidates_examples:
  "candidates True [item_bond, item_tiktok, item_youtube] = [item_tiktok, item_youtube]"
  "candidates False [item_bond, item_tiktok, item_youtube] = [item_bond, item_tiktok, item_youtube]"
  by (simp_all add: candidates_def dedupe_examples item_fields)

lemma compose_example_sections:
  "sections (compose U now [item_bond, item_tiktok, item_youtube] m) =
     [\<lparr> sec_name = launches_name,
        sec_items = map render (slice0_number [item_tiktok, item_bond, item_youtube] m) \<rparr>,
      \<lparr> sec_name = formats_name,
        sec_items = map render (slice0_number [item_tiktok, item_bond, item_youtube] m) \<rparr>,
      \<lparr> sec_name = platform_name,
        sec_items = map render (slice0_number [item_youtube, item_bond, item_tiktok] m) \<rparr>,
      \<lparr> sec_name = examples_name,
        sec_items = map render (slice0_number [item_youtube, item_bond, item_tiktok] m) \<rparr>]"
  using ranked_examples [of U] by (simp add: compose_def section_names_def)

section \<open>The digest route\<close>

lemma known_feed_ids:
  "map feed_id FEEDS =
     [''ppc_land'', ''tubefilter'', ''publishpress'', ''hollywood_reporter'',
      ''google_news_youtube_series_us_en'', ''tiktok_creativecenter_trends'']"
  by (simp add: FEEDS_def)

lemma selected_known:
  "filter (\<lambda>f. includes_arr (filter (\<lambda>s. s \<in> set (map feed_id FEEDS)) srcs) (feed_id f)) FEEDS
     = filter (\<lambda>f. includes_arr srcs (feed_id f)) FEEDS"
  by (rule filter_cong) (auto simp: includes_arr_def)

lemma selected_nonempty:
  "\<exists>s \<in> set srcs. s \<in> set (map feed_id FEEDS) \<Longrightarrow>
     filter (\<lambda>f. includes_arr srcs (feed_id f)) FEEDS \<noteq> []"
  by (auto simp: filter_empty_conv includes_arr_def)

text \<open>
  Every item the loop collects comes from one of the feeds it was given.
\<close>

lemma map_throwing_normalize_source:
  "map_throwing (normalize_entry U now ex fid) entries = Inr mapped \<Longrightarrow>
     \<forall>it \<in> set mapped. source it = fid"
proof (induction entries arbitrary: mapped)
  case Nil
  then show ?case by simp
next
  case (Cons x xs)
  then show ?case
    by (cases x) (auto simp: normalize_article_def Let_def split: sum.splits)
qed

lemma fetch_all_sources:
  "fetch_all e fromISO ex fs all net = (Inr all', net') \<Longrightarrow>
     source ` set all' \<subseteq> source ` set all \<union> feed_id ` set fs"
proof (induction fs arbitrary: all net)
  case Nil
  then show ?case by auto
next
  case (Cons f fs)
  from Cons.prems obtain data net1 entries mapped where
    m: "map_throwing (normalize_entry (lowerUnicode e) (isoNow e) ex (feed_id f)) entries
          = Inr mapped"
    and r: "fetch_all e fromISO ex fs (all @ mapped) net1 = (Inr all', net')"
    by (auto split: prod.splits sum.splits)
  have "source ` set all' \<subseteq> source ` set (all @ mapped) \<union> feed_id ` set fs"
    using Cons.IH [OF r] .
  moreover have "source ` set mapped \<subseteq> {feed_id f}"
    using map_throwing_normalize_source [OF m] by auto
  ultimately show ?case by (simp add: image_Un) blast
qed

text \<open>
  With a source that names a feed of the catalog, neither check of the sources answers
  422: the handler answers 500 when the window gives no date or when the loop over the
  matching feeds throws, and the digest of the collected items otherwise.
\<close>

lemma digest_handler_valid_sources:
  assumes "b_sources body = Some srcs" and "\<exists>s \<in> set srcs. s \<in> set (map feed_id FEEDS)"
  shows "digest_handler e body net =
     (case since_iso e (case b_window_hours body of None \<Rightarrow> Finite 168 | Some h \<Rightarrow> h) of
        None \<Rightarrow> (Json_caught 500 Invalid_time_value, net)
      | Some fromISO \<Rightarrow>
          (case fetch_all e fromISO
                  (case b_exclude body of None \<Rightarrow> [''linear'', ''streaming''] | Some x \<Rightarrow> x)
                  (filter (\<lambda>f. feed_id f \<in> set srcs) FEEDS) [] net of
             (Inl err, net') \<Rightarrow> (Json_caught 500 err, net')
           | (Inr all, net') \<Rightarrow>
               (Json_digest
                  (compose (lowerUnicode e) (isoNow e)
                     (candidates (b_digital_first_only body \<noteq> Some False) all)
                     (case b_max_items_per_section body of None \<Rightarrow> Finite 6 | Some m \<Rightarrow> m)),
                net')))"
proof -
  have "srcs \<noteq> []" using assms(2) by auto
  moreover have "filter (\<lambda>f. feed_id f \<in> set srcs) FEEDS \<noteq> []"
    using selected_nonempty [OF assms(2)] by (simp add: includes_arr_def)
  ultimately show ?thesis
    using assms(1)
    by (simp add: digest_handler_def Let_def includes_arr_def split: option.splits)
qed

lemma digest_handler_not_message:
  assumes "b_sources body = Some srcs" and "\<exists>s \<in> set srcs. s \<in> set (map feed_id FEEDS)"
  shows "fst (digest_handler e body net) \<noteq> Json_message c msg"
  unfolding digest_handler_valid_sources [OF assms]
  by (simp split: option.splits prod.splits sum.splits)

lemma digest_handler_known_only:
  assumes "b_sources body = Some srcs" and "\<exists>s \<in> set srcs. s \<in> set (map feed_id FEEDS)"
  shows "digest_handler e body net =
     digest_handler e
       (body\<lparr>b_sources := Some (filter (\<lambda>s. s \<in> set (map feed_id FEEDS)) srcs)\<rparr>) net"
proof -
  have "srcs \<noteq> []" using assms(2) by auto
  moreover have "filter (\<lambda>s. s \<in> set (map feed_id FEEDS)) srcs \<noteq> []"
    using assms(2) by (auto simp: filter_empty_conv)
  ultimately show ?thesis
    using assms(1) selected_known [of srcs]
    by (simp add: digest_handler_def Let_def split: option.splits)
qed

text \<open>A digest in the answer is composed of the items the loop collected.\<close>

lemma digest_handler_digest:
  assumes "fst (digest_handler e body net) = Json_digest d"
  shows "\<exists>fromISO all net'.
     since_iso e (case b_window_hours body of None \<Rightarrow> Finite 168 | Some h \<Rightarrow> h) = Some fromISO \<and>
     fetch_all e fromISO
        (case b_exclude body of None \<Rightarrow> [''linear'', ''streaming''] | Some x \<Rightarrow> x)
        (filter (\<lambda>f. feed_id f \<in> set (case b_sources body of None \<Rightarrow> [] | Some s \<Rightarrow> s)) FEEDS)
        [] net = (Inr all, net') \<and>
     d = compose (lowerUnicode e) (isoNow e)
           (candidates (b_digital_first_only body \<noteq> Some False) all)
           (case b_max_items_per_section body of None \<Rightarrow> Finite 6 | Some m \<Rightarrow> m)"
  using assms
  by (auto simp: digest_handler_def Let_def includes_arr_def
        split: option.splits prod.splits sum.splits if_splits)

lemma selected_example:
  "filter (\<lambda>f. feed_id f \<in> set [''tubefilter'', ''no_such_feed'']) FEEDS = [FEEDS ! 1]"
  "filter (\<lambda>f. feed_id f \<in> set [''tubefilter'']) FEEDS = [FEEDS ! 1]"
  by (simp_all add: FEEDS_def)

lemma selected_example_id: "feed_id (FEEDS ! 1) = ''tubefilter''"
  by (simp add: FEEDS_def)

lemma example_env_fields:
  "\<not> falsy (NEWSAPI_KEY example_env)"
  "provider example_env n r =
     Reply_ok (Body (Articles [Entry article_bond, Entry article_tiktok, Entry article_youtube]))"
  "since_iso example_env (Finite h) = Some ''2024-04-25T00:00:00.000Z''"
  "isoSince example_env h = Some ''2024-04-25T00:00:00.000Z''"
  by (simp_all add: example_env_def)

lemma fetch_all_example:
  assumes "feed_id f = ''tubefilter''"
  shows "\<exists>net'. fetch_all example_env fromISO [''linear'', ''streaming''] [f] [] net
     = (Inr [item_bond, item_tiktok, item_youtube], net')"
  using assms
  by (simp add: newsapiEverything_def Let_def example_env_fields item_bond_def item_tiktok_def
        item_youtube_def)

lemma example_body_fields:
  "b_sources (example_body\<lparr>b_max_items_per_section := m, b_digital_first_only := d\<rparr>)
     = Some [''tubefilter'', ''no_such_feed'']"
  "b_window_hours (example_body\<lparr>b_max_items_per_section := m, b_digital_first_only := d\<rparr>) = None"
  "b_exclude (example_body\<lparr>b_max_items_per_section := m, b_digital_first_only := d\<rparr>) = None"
  "example_body\<lparr>b_max_items_per_section := None, b_digital_first_only := None\<rparr> = example_body"
  by (simp_all add: example_body_def)

lemma digest_handler_example:
  "fst (digest_handler example_env
          (example_body\<lparr>b_max_items_per_section := m, b_digital_first_only := d\<rparr>) []) =
     Json_digest
       (compose (lowerUnicode example_env) (isoNow example_env)
          (candidates (d \<noteq> Some False) [item_bond, item_tiktok, item_youtube])
          (case m of None \<Rightarrow> Finite 6 | Some x \<Rightarrow> x))"
proof -
  obtain net' where
    "fetch_all example_env ''2024-04-25T00:00:00.000Z'' [''linear'', ''streaming'']
       (filter (\<lambda>f. feed_id f \<in> set [''tubefilter'', ''no_such_feed'']) FEEDS) [] []
       = (Inr [item_bond, item_tiktok, item_youtube], net')"
    unfolding selected_example using fetch_all_example [OF selected_example_id] by blast
  moreover have known: "\<exists>s \<in> set [''tubefilter'', ''no_such_feed'']. s \<in> set (map feed_id FEEDS)"
    by (simp add: known_feed_ids)
  ultimately show ?thesis
    by (simp add: digest_handler_valid_sources [OF example_body_fields(1) known]
          example_body_fields example_env_fields)
qed

text \<open>
  A value that is not a number makes \<open>Number\<close> give \<open>NaN\<close>: as the window it ends the
  request with status 500 before any search, as the section size it empties every section.
\<close>

lemma digest_handler_window_NaN:
  assumes "b_sources body = Some srcs" and "srcs \<noteq> []" and "b_window_hours body = Some NaN"
  shows "digest_handler e body net = (Json_caught 500 Invalid_time_value, net)"
  using assms by (simp add: digest_handler_def Let_def)

lemma compose_sections_NaN:
  "sections (compose U now items NaN) = map (\<lambda>s. \<lparr> sec_name = s, sec_items = [] \<rparr>) section_names"
  by (simp add: compose_def slice0_def)

text \<open>An \<open>articles\<close> array that holds \<open>null\<close> ends the loop with a \<open>TypeError\<close>.\<close>

lemma fetch_all_null_entry:
  assumes "\<not> falsy (NEWSAPI_KEY e)"
    and "\<forall>n r. provider e n r = Reply_ok (Body (Articles [Null_entry]))"
  shows "fst (fetch_all e fromISO ex (f # fs) all net) = Inl (Cannot_read_null ''publishedAt'')"
  using assms by (simp add: newsapiEverything_def Let_def)

section \<open>Sections\<close>

text \<open>
  Claim C5, as amended. For a \<open>max_items_per_section\<close> that is a non-negative integer,
  each of the four sections holds the first \<open>max_items_per_section\<close> items of the
  candidate items sorted by that section's score, highest first, items of equal score in
  their former order, each rendered as headline, blurb and urls. The ranking is the items
  that score 4 followed by those that score 1. So a section holds at most
  \<open>max_items_per_section\<close> entries, and one item may appear in several sections.
\<close>

theorem sections_top_ranked:
  assumes "0 \<le> m"
  shows
    "sections (compose U now items (Finite (of_int m))) =
       map (\<lambda>s. \<lparr> sec_name = s,
                  sec_items = map render (take (nat m) (ranked U items s)) \<rparr>) section_names \<and>
     ranked U items sec =
       filter (\<lambda>it. score U it sec = 4) items @ filter (\<lambda>it. score U it sec \<noteq> 4) items \<and>
     sorted (rev (map (\<lambda>it. score U it sec) (ranked U items sec))) \<and>
     filter (\<lambda>it. score U it sec = n) (ranked U items sec)
       = filter (\<lambda>it. score U it sec = n) items \<and>
     (\<forall>s \<in> set (sections (compose U now items (Finite (of_int m)))).
        int (length (sec_items s)) \<le> m)"
proof (intro conjI)
  show "sections (compose U now items (Finite (of_int m))) =
       map (\<lambda>s. \<lparr> sec_name = s,
                  sec_items = map render (take (nat m) (ranked U items s)) \<rparr>) section_names"
    using assms by (rule compose_sections)
  show "ranked U items sec =
       filter (\<lambda>it. score U it sec = 4) items @ filter (\<lambda>it. score U it sec \<noteq> 4) items"
    by (rule ranked_two_blocks)
  show "sorted (rev (map (\<lambda>it. score U it sec) (ranked U items sec)))"
    by (rule ranked_descending)
  show "filter (\<lambda>it. score U it sec = n) (ranked U items sec)
          = filter (\<lambda>it. score U it sec = n) items"
    by (rule ranked_stable)
  show "\<forall>s \<in> set (sections (compose U now items (Finite (of_int m)))).
          int (length (sec_items s)) \<le> m"
    using assms by (auto simp: compose_sections)
qed

text \<open>
  With room for two entries, the bond report fills the second place of all four sections.
\<close>

theorem sections_top_ranked_witness:
  "(0::int) \<le> 2 \<and>
   sections (compose (lowerUnicode example_env) (isoNow example_env)
               [item_bond, item_tiktok, item_youtube] (Finite 2)) =
     [\<lparr> sec_name = launches_name, sec_items = [render item_tiktok, render item_bond] \<rparr>,
      \<lparr> sec_name = formats_name, sec_items = [render item_tiktok, render item_bond] \<rparr>,
      \<lparr> sec_name = platform_name, sec_items = [render item_youtube, render item_bond] \<rparr>,
      \<lparr> sec_name = examples_name, sec_items = [render item_youtube, render item_bond] \<rparr>]"
  using sections_top_ranked
      [of 2 "lowerUnicode example_env" "isoNow example_env"
          "[item_bond, item_tiktok, item_youtube]", THEN conjunct1]
    ranked_examples [of "lowerUnicode example_env"]
  by (simp add: section_names_def)

text \<open>
  The claim as it was stated has no condition on \<open>max_items_per_section\<close>. The handler
  passes the number of the request body to \<open>slice\<close> as it is, and a negative end counts
  from the end of the array: with three candidate items and \<open>max_items_per_section = -1\<close>
  every section holds two entries.
\<close>

theorem sections_top_ranked_counterexample:
  "fst (digest_handler example_env
          (example_body\<lparr>b_max_items_per_section := Some (Finite (- 1)),
                         b_digital_first_only := Some False\<rparr>) []) =
     Json_digest
       (compose (lowerUnicode example_env) (isoNow example_env)
          [item_bond, item_tiktok, item_youtube] (Finite (- 1))) \<and>
   map (length \<circ> sec_items)
       (sections
          (compose (lowerUnicode example_env) (isoNow example_env)
             [item_bond, item_tiktok, item_youtube] (Finite (- 1))))
     = [2, 2, 2, 2]"
  by (simp add: digest_handler_example candidates_examples compose_example_sections
        slice0_examples del: slice0_number.simps)

section \<open>Citations\<close>

text \<open>
  Claim C4, as amended. The citations of a digest are the first 200 (or all, when there
  are fewer) of the candidate items, in their order, each as url, title and source; there
  are at most 200. The candidate items are the deduplicated items after the
  \<open>digital_first_only\<close> filter, which is on unless the request sets it to \<open>false\<close>;
  only then are they the deduplicated items themselves. In the theorem \<open>all\<close> is the list
  of items that the loop over the matching feeds collected for the request.
\<close>

theorem citations_first_200:
  "citations (compose U now items m) = map cite (take 200 items) \<and>
   length (citations (compose U now items m)) \<le> 200 \<and>
   (fst (digest_handler e body net) = Json_digest d \<longrightarrow>
      (\<exists>fromISO all net'.
         since_iso e (case b_window_hours body of None \<Rightarrow> Finite 168 | Some h \<Rightarrow> h)
           = Some fromISO \<and>
         fetch_all e fromISO
            (case b_exclude body of None \<Rightarrow> [''linear'', ''streaming''] | Some x \<Rightarrow> x)
            (filter (\<lambda>f. feed_id f \<in> set (case b_sources body of None \<Rightarrow> [] | Some s \<Rightarrow> s))
               FEEDS)
            [] net = (Inr all, net') \<and>
         citations d =
           map cite
             (take 200
                (if b_digital_first_only body \<noteq> Some False
                 then filter (\<lambda>i. digital_first (classification i)) (dedupe all)
                 else dedupe all))))"
proof (intro conjI impI)
  show "citations (compose U now items m) = map cite (take 200 items)"
    by (rule compose_citations)
  show "length (citations (compose U now items m)) \<le> 200"
    by (simp add: compose_citations)
next
  assume "fst (digest_handler e body net) = Json_digest d"
  then obtain fromISO all net' where
    s: "since_iso e (case b_window_hours body of None \<Rightarrow> Finite 168 | Some h \<Rightarrow> h)
          = Some fromISO"
    and f: "fetch_all e fromISO
        (case b_exclude body of None \<Rightarrow> [''linear'', ''streaming''] | Some x \<Rightarrow> x)
        (filter (\<lambda>f. feed_id f \<in> set (case b_sources body of None \<Rightarrow> [] | Some s \<Rightarrow> s)) FEEDS)
        [] net = (Inr all, net')"
    and d: "d = compose (lowerUnicode e) (isoNow e)
           (candidates (b_digital_first_only body \<noteq> Some False) all)
           (case b_max_items_per_section body of None \<Rightarrow> Finite 6 | Some m \<Rightarrow> m)"
    using digest_handler_digest by blast
  have "citations d =
           map cite
             (take 200
                (if b_digital_first_only body \<noteq> Some False
                 then filter (\<lambda>i. digital_first (classification i)) (dedupe all)
                 else dedupe all))"
    unfolding d by (simp add: compose_citations candidates_def)
  with s f show "\<exists>fromISO all net'.
         since_iso e (case b_window_hours body of None \<Rightarrow> Finite 168 | Some h \<Rightarrow> h)
           = Some fromISO \<and>
         fetch_all e fromISO
            (case b_exclude body of None \<Rightarrow> [''linear'', ''streaming''] | Some x \<Rightarrow> x)
            (filter (\<lambda>f. feed_id f \<in> set (case b_sources body of None \<Rightarrow> [] | Some s \<Rightarrow> s))
               FEEDS)
            [] net = (Inr all, net') \<and>
         citations d =
           map cite
             (take 200
                (if b_digital_first_only body \<noteq> Some False
                 then filter (\<lambda>i. digital_first (classification i)) (dedupe all)
                 else dedupe all))"
    by blast
qed

text \<open>
  In the example request the loop collects the three items, and the two that are
  digital-first are cited.
\<close>

theorem citations_first_200_witness:
  "fst (digest_handler example_env example_body []) =
     Json_digest
       (compose (lowerUnicode example_env) (isoNow example_env)
          [item_tiktok, item_youtube] (Finite 6)) \<and>
   fst (fetch_all example_env ''2024-04-25T00:00:00.000Z'' [''linear'', ''streaming'']
          (filter (\<lambda>f. feed_id f \<in> set [''tubefilter'', ''no_such_feed'']) FEEDS) [] [])
     = Inr [item_bond, item_tiktok, item_youtube] \<and>
   filter (\<lambda>i. digital_first (classification i)) (dedupe [item_bond, item_tiktok, item_youtube])
     = [item_tiktok, item_youtube] \<and>
   citations
       (compose (lowerUnicode example_env) (isoNow example_env)
          [item_tiktok, item_youtube] (Finite 6))
     = [cite item_tiktok, cite item_youtube]"
proof -
  obtain net' where
    "fetch_all example_env ''2024-04-25T00:00:00.000Z'' [''linear'', ''streaming'']
       (filter (\<lambda>f. feed_id f \<in> set [''tubefilter'', ''no_such_feed'']) FEEDS) [] []
       = (Inr [item_bond, item_tiktok, item_youtube], net')"
    unfolding selected_example using fetch_all_example [OF selected_example_id] by blast
  then show ?thesis
    using citations_first_200
      [of "lowerUnicode example_env" "isoNow example_env" "[item_tiktok, item_youtube]"
          "Finite 6" example_env example_body "[]"
          "compose (lowerUnicode example_env) (isoNow example_env)
             [item_tiktok, item_youtube] (Finite 6)"]
      digest_handler_example [of None None]
    by (simp add: example_body_fields candidates_examples dedupe_examples item_fields)
qed

text \<open>
  The claim as it was stated takes the citations from the deduplicated items. In the
  example request the filter is on: the deduplicated items begin with the bond report,
  which is not digital-first, and the citations do not hold it.
\<close>

theorem citations_first_200_counterexample:
  "fst (digest_handler example_env example_body []) =
     Json_digest
       (compose (lowerUnicode example_env) (isoNow example_env)
          (candidates True [item_bond, item_tiktok, item_youtube]) (Finite 6)) \<and>
   citations
       (compose (lowerUnicode example_env) (isoNow example_env)
          (candidates True [item_bond, item_tiktok, item_youtube]) (Finite 6))
     = [cite item_tiktok, cite item_youtube] \<and>
   map cite (take 200 (dedupe [item_bond, item_tiktok, item_youtube]))
     = [cite item_bond, cite item_tiktok, cite item_youtube] \<and>
   [cite item_tiktok, cite item_youtube] \<noteq> [cite item_bond, cite item_tiktok, cite item_youtube]"
  using digest_handler_example [of None None]
  by (simp add: example_body_fields candidates_examples dedupe_examples compose_citations)

section \<open>Unknown sources\<close>

text \<open>
  Claim C10: for a digest request whose sources hold at least one feed id of the catalog,
  the request succeeds using only the matching feeds; the ids that are not in the catalog
  are ignored and cause neither an error response nor any contribution to the digest.

  The handler answers such a request as it answers the same request without the unknown
  ids, and its answer is never the 422 of invalid inputs. What it answers is the digest of
  the items collected from the matching feeds; a status 500 comes only from a window that
  gives no date or from the search or the articles of a matching feed. Every item
  collected has a matching feed of the catalog as its source.
\<close>

theorem digest_unknown_sources_ignored:
  assumes "b_sources body = Some srcs" and "\<exists>s \<in> set srcs. s \<in> set (map feed_id FEEDS)"
  shows
    "digest_handler e body net =
       digest_handler e
         (body\<lparr>b_sources := Some (filter (\<lambda>s. s \<in> set (map feed_id FEEDS)) srcs)\<rparr>) net \<and>
     (\<forall>c msg. fst (digest_handler e body net) \<noteq> Json_message c msg) \<and>
     digest_handler e body net =
       (case since_iso e (case b_window_hours body of None \<Rightarrow> Finite 168 | Some h \<Rightarrow> h) of
          None \<Rightarrow> (Json_caught 500 Invalid_time_value, net)
        | Some fromISO \<Rightarrow>
            (case fetch_all e fromISO
                    (case b_exclude body of None \<Rightarrow> [''linear'', ''streaming''] | Some x \<Rightarrow> x)
                    (filter (\<lambda>f. feed_id f \<in> set srcs) FEEDS) [] net of
               (Inl err, net') \<Rightarrow> (Json_caught 500 err, net')
             | (Inr all, net') \<Rightarrow>
                 (Json_digest
                    (compose (lowerUnicode e) (isoNow e)
                       (candidates (b_digital_first_only body \<noteq> Some False) all)
                       (case b_max_items_per_section body of None \<Rightarrow> Finite 6 | Some m \<Rightarrow> m)),
                  net'))) \<and>
     (\<forall>fromISO ex all net'.
        fetch_all e fromISO ex (filter (\<lambda>f. feed_id f \<in> set srcs) FEEDS) [] net = (Inr all, net')
          \<longrightarrow> source ` set all \<subseteq> set srcs \<inter> feed_id ` set FEEDS)"
proof (intro conjI allI impI)
  show "digest_handler e body net =
       digest_handler e
         (body\<lparr>b_sources := Some (filter (\<lambda>s. s \<in> set (map feed_id FEEDS)) srcs)\<rparr>) net"
    by (rule digest_handler_known_only [OF assms])
  show "fst (digest_handler e body net) \<noteq> Json_message c msg" for c msg
    by (rule digest_handler_not_message [OF assms])
  show "digest_handler e body net =
       (case since_iso e (case b_window_hours body of None \<Rightarrow> Finite 168 | Some h \<Rightarrow> h) of
          None \<Rightarrow> (Json_caught 500 Invalid_time_value, net)
        | Some fromISO \<Rightarrow>
            (case fetch_all e fromISO
                    (case b_exclude body of None \<Rightarrow> [''linear'', ''streaming''] | Some x \<Rightarrow> x)
                    (filter (\<lambda>f. feed_id f \<in> set srcs) FEEDS) [] net of
               (Inl err, net') \<Rightarrow> (Json_caught 500 err, net')
             | (Inr all, net') \<Rightarrow>
                 (Json_digest
                    (compose (lowerUnicode e) (isoNow e)
                       (candidates (b_digital_first_only body \<noteq> Some False) all)
                       (case b_max_items_per_section body of None \<Rightarrow> Finite 6 | Some m \<Rightarrow> m)),
                  net')))"
    by (rule digest_handler_valid_sources [OF assms])
next
  fix fromISO ex all net'
  assume "fetch_all e fromISO ex (filter (\<lambda>f. feed_id f \<in> set srcs) FEEDS) [] net
            = (Inr all, net')"
  from fetch_all_sources [OF this]
  show "source ` set all \<subseteq> set srcs \<inter> feed_id ` set FEEDS" by auto
qed

text \<open>
  The example request names the feed \<open>tubefilter\<close> and an id that is in no catalog; it is
  answered with the digest of the items of \<open>tubefilter\<close>.
\<close>

theorem digest_unknown_sources_ignored_witness:
  "b_sources example_body = Some [''tubefilter'', ''no_such_feed''] \<and>
   ''tubefilter'' \<in> set (map feed_id FEEDS) \<and>
   ''no_such_feed'' \<notin> set (map feed_id FEEDS) \<and>
   digest_handler example_env example_body [] =
     digest_handler example_env (example_body\<lparr>b_sources := Some [''tubefilter'']\<rparr>) [] \<and>
   fst (digest_handler example_env example_body []) =
     Json_digest
       (compose (lowerUnicode example_env) (isoNow example_env)
          [item_tiktok, item_youtube] (Finite 6))"
proof -
  have b: "b_sources example_body = Some [''tubefilter'', ''no_such_feed'']"
    by (simp add: example_body_def)
  have k: "\<exists>s \<in> set [''tubefilter'', ''no_such_feed'']. s \<in> set (map feed_id FEEDS)"
    by (simp add: known_feed_ids)
  show ?thesis
    using digest_unknown_sources_ignored [OF b k, of example_env "[]", THEN conjunct1]
      digest_handler_example [of None None]
    by (simp add: example_body_fields candidates_examples known_feed_ids b)
qed

end
